theory Spec2Isabelle
  imports Main "HOL-Library.Word"
begin

unbundle bit_operations_syntax

section \<open>FME global performance reporting driver (drivers/fpga/dfl-fme-perf.c)\<close>

text \<open>
  A shallow embedding of the driver. C integers are words of their width
  (\<open>u32\<close>, \<open>u64\<close>), so \<open>+\<close> and \<open>-\<close> wrap as in C. The driver's private data is a
  record that every function takes and returns. The spin lock \<open>fab_lock\<close> is not
  modelled: the functions are embedded as the sequential code between lock and unlock.
\<close>

type_synonym u8 = "8 word"
type_synonym u32 = "32 word"
type_synonym u64 = "64 word"

subsection \<open>The memory-mapped register window\<close>

text \<open>
  Device registers are volatile. The window holds, for every offset, the value the
  register presents now (\<open>latched\<close>) and the values the hardware will present at the
  following reads (\<open>incoming\<close>, consumed one per read; when it is empty the register
  keeps its latched value). Every access is recorded in \<open>trace\<close>, so that "no register
  is touched" is the statement that the trace did not grow.
\<close>

datatype access = Rd nat u64 | Wr nat u64

record mmio =
  latched :: "nat \<Rightarrow> u64"
  incoming :: "nat \<Rightarrow> u64 list"
  trace :: "access list"

definition readq :: "mmio \<Rightarrow> nat \<Rightarrow> u64 \<times> mmio" where
  "readq io off =
     (case incoming io off of
        [] \<Rightarrow> (latched io off, io\<lparr>trace := trace io @ [Rd off (latched io off)]\<rparr>)
      | v # vs \<Rightarrow>
          (v, io\<lparr>latched := (latched io)(off := v),
                 incoming := (incoming io)(off := vs),
                 trace := trace io @ [Rd off v]\<rparr>))"

definition writeq :: "u64 \<Rightarrow> nat \<Rightarrow> mmio \<Rightarrow> mmio" where
  "writeq v off io = io\<lparr>latched := (latched io)(off := v), trace := trace io @ [Wr off v]\<rparr>"

subsection \<open>Bit-field macros\<close>

text \<open>
  Modelled from the spec: the macros \<open>BIT_ULL\<close>, \<open>GENMASK_ULL\<close> (linux/bits.h),
  \<open>FIELD_PREP\<close> and \<open>FIELD_GET\<close> (linux/bitfield.h) are used by the driver but are not
  part of its source file. The spec speaks of "sub-fields" of a register that are
  programmed while "preserving unrelated bits"; the definitions below are the kernel's:
  \<open>GENMASK_ULL h l\<close> has bits \<open>l..h\<close> set, \<open>FIELD_PREP m v\<close> shifts \<open>v\<close> to the lowest
  set bit of \<open>m\<close> and masks it with \<open>m\<close>, \<open>FIELD_GET m r\<close> masks \<open>r\<close> with \<open>m\<close> and shifts
  it down.
\<close>

definition BIT_ULL :: "nat \<Rightarrow> u64" where
  "BIT_ULL n = push_bit n 1"

definition GENMASK_ULL :: "nat \<Rightarrow> nat \<Rightarrow> u64" where
  "GENMASK_ULL h l = ((NOT 0 - push_bit l 1 + 1) AND drop_bit (63 - h) (NOT 0))"

definition bf_shf :: "u64 \<Rightarrow> nat" where
  "bf_shf m = length (takeWhile (\<lambda>n. \<not> bit m n) [0..<64])"

definition FIELD_PREP :: "u64 \<Rightarrow> u64 \<Rightarrow> u64" where
  "FIELD_PREP m v = push_bit (bf_shf m) v AND m"

definition FIELD_GET :: "u64 \<Rightarrow> u64 \<Rightarrow> u64" where
  "FIELD_GET m r = drop_bit (bf_shf m) (r AND m)"

subsection \<open>Register map and constants\<close>

definition CACHE_CTRL :: nat where "CACHE_CTRL = 0x8"
definition CACHE_CTRL_EVNT :: u64 where "CACHE_CTRL_EVNT = GENMASK_ULL 19 16"
definition CACHE_EVNT_RD_HIT :: u32 where "CACHE_EVNT_RD_HIT = 0x0"
definition CACHE_EVNT_WR_HIT :: u32 where "CACHE_EVNT_WR_HIT = 0x1"
definition CACHE_EVNT_RD_MISS :: u32 where "CACHE_EVNT_RD_MISS = 0x2"
definition CACHE_EVNT_WR_MISS :: u32 where "CACHE_EVNT_WR_MISS = 0x3"
definition CACHE_EVNT_HOLD_REQ :: u32 where "CACHE_EVNT_HOLD_REQ = 0x5"
definition CACHE_EVNT_DATA_WR_PORT_CONTEN :: u32 where "CACHE_EVNT_DATA_WR_PORT_CONTEN = 0x6"
definition CACHE_EVNT_TAG_WR_PORT_CONTEN :: u32 where "CACHE_EVNT_TAG_WR_PORT_CONTEN = 0x7"
definition CACHE_EVNT_TX_REQ_STALL :: u32 where "CACHE_EVNT_TX_REQ_STALL = 0x8"
definition CACHE_EVNT_RX_REQ_STALL :: u32 where "CACHE_EVNT_RX_REQ_STALL = 0x9"
definition CACHE_EVNT_EVICTIONS :: u32 where "CACHE_EVNT_EVICTIONS = 0xa"
definition CACHE_CHANNEL_SEL :: u64 where "CACHE_CHANNEL_SEL = BIT_ULL 20"
definition CACHE_CHANNEL_RD :: u64 where "CACHE_CHANNEL_RD = 0"
definition CACHE_CHANNEL_WR :: u64 where "CACHE_CHANNEL_WR = 1"
definition CACHE_CNTR0 :: nat where "CACHE_CNTR0 = 0x10"
definition CACHE_CNTR1 :: nat where "CACHE_CNTR1 = 0x18"
definition CACHE_CNTR_EVNT_CNTR :: u64 where "CACHE_CNTR_EVNT_CNTR = GENMASK_ULL 47 0"
definition CACHE_CNTR_EVNT :: u64 where "CACHE_CNTR_EVNT = GENMASK_ULL 63 60"

definition FAB_CTRL :: nat where "FAB_CTRL = 0x20"
definition FAB_CTRL_EVNT :: u64 where "FAB_CTRL_EVNT = GENMASK_ULL 19 16"
definition FAB_EVNT_PCIE0_RD :: u32 where "FAB_EVNT_PCIE0_RD = 0x0"
definition FAB_EVNT_PCIE0_WR :: u32 where "FAB_EVNT_PCIE0_WR = 0x1"
definition FAB_EVNT_PCIE1_RD :: u32 where "FAB_EVNT_PCIE1_RD = 0x2"
definition FAB_EVNT_PCIE1_WR :: u32 where "FAB_EVNT_PCIE1_WR = 0x3"
definition FAB_EVNT_UPI_RD :: u32 where "FAB_EVNT_UPI_RD = 0x4"
definition FAB_EVNT_UPI_WR :: u32 where "FAB_EVNT_UPI_WR = 0x5"
definition FAB_EVNT_MMIO_RD :: u32 where "FAB_EVNT_MMIO_RD = 0x6"
definition FAB_EVNT_MMIO_WR :: u32 where "FAB_EVNT_MMIO_WR = 0x7"
definition FAB_PORT_ID :: u64 where "FAB_PORT_ID = GENMASK_ULL 21 20"
definition FAB_PORT_FILTER :: u64 where "FAB_PORT_FILTER = BIT_ULL 23"
definition FAB_PORT_FILTER_DISABLE :: u64 where "FAB_PORT_FILTER_DISABLE = 0"
definition FAB_PORT_FILTER_ENABLE :: u64 where "FAB_PORT_FILTER_ENABLE = 1"
definition FAB_CNTR :: nat where "FAB_CNTR = 0x28"
definition FAB_CNTR_EVNT_CNTR :: u64 where "FAB_CNTR_EVNT_CNTR = GENMASK_ULL 59 0"
definition FAB_CNTR_EVNT :: u64 where "FAB_CNTR_EVNT = GENMASK_ULL 63 60"

definition CLK_CNTR :: nat where "CLK_CNTR = 0x30"
definition BASIC_EVNT_CLK :: u32 where "BASIC_EVNT_CLK = 0x0"

definition VTD_CTRL :: nat where "VTD_CTRL = 0x38"
definition VTD_CTRL_EVNT :: u64 where "VTD_CTRL_EVNT = GENMASK_ULL 19 16"
definition VTD_EVNT_AFU_MEM_RD_TRANS :: u32 where "VTD_EVNT_AFU_MEM_RD_TRANS = 0x0"
definition VTD_EVNT_AFU_MEM_WR_TRANS :: u32 where "VTD_EVNT_AFU_MEM_WR_TRANS = 0x1"
definition VTD_EVNT_AFU_DEVTLB_RD_HIT :: u32 where "VTD_EVNT_AFU_DEVTLB_RD_HIT = 0x2"
definition VTD_EVNT_AFU_DEVTLB_WR_HIT :: u32 where "VTD_EVNT_AFU_DEVTLB_WR_HIT = 0x3"
definition VTD_EVNT_DEVTLB_4K_FILL :: u32 where "VTD_EVNT_DEVTLB_4K_FILL = 0x4"
definition VTD_EVNT_DEVTLB_2M_FILL :: u32 where "VTD_EVNT_DEVTLB_2M_FILL = 0x5"
definition VTD_EVNT_DEVTLB_1G_FILL :: u32 where "VTD_EVNT_DEVTLB_1G_FILL = 0x6"
definition VTD_CNTR :: nat where "VTD_CNTR = 0x40"
definition VTD_CNTR_EVNT_CNTR :: u64 where "VTD_CNTR_EVNT_CNTR = GENMASK_ULL 47 0"
definition VTD_CNTR_EVNT :: u64 where "VTD_CNTR_EVNT = GENMASK_ULL 63 60"

definition VTD_SIP_CTRL :: nat where "VTD_SIP_CTRL = 0x48"
definition VTD_SIP_CTRL_EVNT :: u64 where "VTD_SIP_CTRL_EVNT = GENMASK_ULL 19 16"
definition VTD_SIP_EVNT_IOTLB_4K_HIT :: u32 where "VTD_SIP_EVNT_IOTLB_4K_HIT = 0x0"
definition VTD_SIP_EVNT_IOTLB_2M_HIT :: u32 where "VTD_SIP_EVNT_IOTLB_2M_HIT = 0x1"
definition VTD_SIP_EVNT_IOTLB_1G_HIT :: u32 where "VTD_SIP_EVNT_IOTLB_1G_HIT = 0x2"
definition VTD_SIP_EVNT_SLPWC_L3_HIT :: u32 where "VTD_SIP_EVNT_SLPWC_L3_HIT = 0x3"
definition VTD_SIP_EVNT_SLPWC_L4_HIT :: u32 where "VTD_SIP_EVNT_SLPWC_L4_HIT = 0x4"
definition VTD_SIP_EVNT_RCC_HIT :: u32 where "VTD_SIP_EVNT_RCC_HIT = 0x5"
definition VTD_SIP_EVNT_IOTLB_4K_MISS :: u32 where "VTD_SIP_EVNT_IOTLB_4K_MISS = 0x6"
definition VTD_SIP_EVNT_IOTLB_2M_MISS :: u32 where "VTD_SIP_EVNT_IOTLB_2M_MISS = 0x7"
definition VTD_SIP_EVNT_IOTLB_1G_MISS :: u32 where "VTD_SIP_EVNT_IOTLB_1G_MISS = 0x8"
definition VTD_SIP_EVNT_SLPWC_L3_MISS :: u32 where "VTD_SIP_EVNT_SLPWC_L3_MISS = 0x9"
definition VTD_SIP_EVNT_SLPWC_L4_MISS :: u32 where "VTD_SIP_EVNT_SLPWC_L4_MISS = 0xa"
definition VTD_SIP_EVNT_RCC_MISS :: u32 where "VTD_SIP_EVNT_RCC_MISS = 0xb"
definition VTD_SIP_CNTR :: nat where "VTD_SIP_CNTR = 0x50"
definition VTD_SIP_CNTR_EVNT_CNTR :: u64 where "VTD_SIP_CNTR_EVNT_CNTR = GENMASK_ULL 47 0"
definition VTD_SIP_CNTR_EVNT :: u64 where "VTD_SIP_CNTR_EVNT = GENMASK_ULL 63 60"

definition PERF_MAX_PORT_NUM :: u32 where "PERF_MAX_PORT_NUM = 1"

definition FME_EVENT_MASK :: u64 where "FME_EVENT_MASK = GENMASK_ULL 11 0"
definition FME_EVTYPE_MASK :: u64 where "FME_EVTYPE_MASK = GENMASK_ULL 15 12"
definition FME_EVTYPE_BASIC :: u32 where "FME_EVTYPE_BASIC = 0"
definition FME_EVTYPE_CACHE :: u32 where "FME_EVTYPE_CACHE = 1"
definition FME_EVTYPE_FABRIC :: u32 where "FME_EVTYPE_FABRIC = 2"
definition FME_EVTYPE_VTD :: u32 where "FME_EVTYPE_VTD = 3"
definition FME_EVTYPE_VTD_SIP :: u32 where "FME_EVTYPE_VTD_SIP = 4"
definition FME_EVTYPE_MAX :: u32 where "FME_EVTYPE_MAX = FME_EVTYPE_VTD_SIP"
definition FME_PORTID_MASK :: u64 where "FME_PORTID_MASK = GENMASK_ULL 23 16"
definition FME_PORTID_ROOT :: u32 where "FME_PORTID_ROOT = 0xff"

subsection \<open>Private data and return codes\<close>

text \<open>
  \<open>struct fme_perf_priv\<close>: the register window, the feature id and the fabric arbiter's
  pair (\<open>fab_users\<close>, \<open>fab_port_id\<close>). \<open>dev_errs\<close> collects the messages the driver
  prints with \<open>dev_err\<close> on the parent device (\<open>dev_dbg\<close> output is not modelled).
\<close>

record fme_perf_priv =
  ioaddr :: mmio
  feature_id :: u64
  fab_users :: u32
  fab_port_id :: u32
  dev_errs :: "string list"

datatype errno = ENOENT | EINVAL | ENOMEM | EOPNOTSUPP | ETIMEDOUT

text \<open>A C \<open>int\<close> status: \<open>OK\<close> is 0, \<open>Err e\<close> is \<open>-e\<close>.\<close>

datatype ret = OK | Err errno

subsection \<open>Fabric counters: the working-mode arbiter\<close>

text \<open>
  \<open>fabric_event_init\<close>: with users present and a different working mode the call fails
  with \<open>-EOPNOTSUPP\<close> (the spec's "Busy"). Otherwise the user count goes up, and only
  when the working mode changes are the port filter and port id of \<open>FAB_CTRL\<close> rewritten.
\<close>

definition fabric_event_init ::
  "fme_perf_priv \<Rightarrow> u32 \<Rightarrow> u32 \<Rightarrow> u64 \<Rightarrow> ret \<times> fme_perf_priv" where
  "fabric_event_init priv event port_id dat =
     (if fab_users priv \<noteq> 0 \<and> fab_port_id priv \<noteq> port_id then (Err EOPNOTSUPP, priv)
      else
        let priv1 = priv\<lparr>fab_users := fab_users priv + 1\<rparr> in
        if fab_port_id priv1 = port_id then (OK, priv1)
        else
          let priv2 = priv1\<lparr>fab_port_id := port_id\<rparr>;
              (v0, io1) = readq (ioaddr priv2) FAB_CTRL;
              v1 = v0 AND NOT (FAB_PORT_FILTER OR FAB_PORT_ID);
              v2 = (if port_id = FME_PORTID_ROOT
                    then v1 OR FIELD_PREP FAB_PORT_FILTER FAB_PORT_FILTER_DISABLE
                    else (v1 OR FIELD_PREP FAB_PORT_FILTER FAB_PORT_FILTER_ENABLE)
                            OR FIELD_PREP FAB_PORT_ID (ucast port_id))
          in (OK, priv2\<lparr>ioaddr := writeq v2 FAB_CTRL io1\<rparr>))"

definition fabric_event_destroy ::
  "fme_perf_priv \<Rightarrow> u32 \<Rightarrow> u32 \<Rightarrow> u64 \<Rightarrow> fme_perf_priv" where
  "fabric_event_destroy priv event port_id dat = priv\<lparr>fab_users := fab_users priv - 1\<rparr>"

subsection \<open>Polling a register\<close>

text \<open>
  Modelled from the spec: \<open>readq_poll_timeout_atomic\<close> (linux/iopoll.h) is not part of
  the driver's source file. The spec: "repeatedly read the counter register until its
  embedded event-tag sub-field equals the requested code, bounded by the fixed timeout".
  The bound is real time (\<open>PERF_TIMEOUT\<close> microseconds, one microsecond between reads);
  here it is the number \<open>n\<close> of reads that fail before the time is over. As in the
  kernel macro, the register is read once more when the time is over, and the result is
  \<open>-ETIMEDOUT\<close> only if that last value does not satisfy the condition either.
\<close>

fun readq_poll_timeout_atomic ::
  "nat \<Rightarrow> mmio \<Rightarrow> nat \<Rightarrow> (u64 \<Rightarrow> bool) \<Rightarrow> ret \<times> u64 \<times> mmio" where
  "readq_poll_timeout_atomic 0 io addr cond =
     (let (v, io1) = readq io addr in
      if cond v then (OK, v, io1)
      else let (w, io2) = readq io1 addr in
           ((if cond w then OK else Err ETIMEDOUT), w, io2))"
| "readq_poll_timeout_atomic (Suc n) io addr cond =
     (let (v, io1) = readq io addr in
      if cond v then (OK, v, io1)
      else readq_poll_timeout_atomic n io1 addr cond)"

subsection \<open>Reading the counters\<close>

text \<open>
  Every \<open>read_counter\<close> callback takes the poll budget \<open>n\<close> of its call first, then the
  arguments of the C function.
\<close>

definition basic_read_event_counter ::
  "nat \<Rightarrow> fme_perf_priv \<Rightarrow> u32 \<Rightarrow> u32 \<Rightarrow> u64 \<Rightarrow> u64 \<times> fme_perf_priv" where
  "basic_read_event_counter n priv event port_id dat =
     (if event = BASIC_EVNT_CLK
      then let (v, io1) = readq (ioaddr priv) CLK_CNTR in (v, priv\<lparr>ioaddr := io1\<rparr>)
      else (0, priv))"

definition cache_read_event_counter ::
  "nat \<Rightarrow> fme_perf_priv \<Rightarrow> u32 \<Rightarrow> u32 \<Rightarrow> u64 \<Rightarrow> u64 \<times> fme_perf_priv" where
  "cache_read_event_counter n priv event port_id dat =
     (let channel = (ucast dat :: u8);
          (v0, io1) = readq (ioaddr priv) CACHE_CTRL;
          v1 = v0 AND NOT (CACHE_CHANNEL_SEL OR CACHE_CTRL_EVNT);
          v2 = v1 OR FIELD_PREP CACHE_CHANNEL_SEL (ucast channel);
          v3 = v2 OR FIELD_PREP CACHE_CTRL_EVNT (ucast event);
          io2 = writeq v3 CACHE_CTRL io1;
          (r, v4, io3) = readq_poll_timeout_atomic n io2 CACHE_CNTR0
                           (\<lambda>v. FIELD_GET CACHE_CNTR_EVNT v = ucast event)
      in if r \<noteq> OK
         then (0, priv\<lparr>ioaddr := io3,
                       dev_errs := dev_errs priv @
                         [''timeout, unmatched cache event code in counter register.'']\<rparr>)
         else
           let (v5, io4) = readq io3 CACHE_CNTR0;
               count0 = FIELD_GET CACHE_CNTR_EVNT_CNTR v5;
               (v6, io5) = readq io4 CACHE_CNTR1;
               count1 = count0 + FIELD_GET CACHE_CNTR_EVNT_CNTR v6
           in (count1, priv\<lparr>ioaddr := io5\<rparr>))"

definition fabric_read_event_counter ::
  "nat \<Rightarrow> fme_perf_priv \<Rightarrow> u32 \<Rightarrow> u32 \<Rightarrow> u64 \<Rightarrow> u64 \<times> fme_perf_priv" where
  "fabric_read_event_counter n priv event port_id dat =
     (let (v0, io1) = readq (ioaddr priv) FAB_CTRL;
          v1 = v0 AND NOT FAB_CTRL_EVNT;
          v2 = v1 OR FIELD_PREP FAB_CTRL_EVNT (ucast event);
          io2 = writeq v2 FAB_CTRL io1;
          (r, v3, io3) = readq_poll_timeout_atomic n io2 FAB_CNTR
                           (\<lambda>v. FIELD_GET FAB_CNTR_EVNT v = ucast event)
      in if r \<noteq> OK
         then (0, priv\<lparr>ioaddr := io3,
                       dev_errs := dev_errs priv @
                         [''timeout, unmatched fab event code in counter register.'']\<rparr>)
         else
           let (v4, io4) = readq io3 FAB_CNTR
           in (FIELD_GET FAB_CNTR_EVNT_CNTR v4, priv\<lparr>ioaddr := io4\<rparr>))"

definition vtd_read_event_counter ::
  "nat \<Rightarrow> fme_perf_priv \<Rightarrow> u32 \<Rightarrow> u32 \<Rightarrow> u64 \<Rightarrow> u64 \<times> fme_perf_priv" where
  "vtd_read_event_counter n priv event0 port_id dat =
     (let event = event0 + port_id;
          (v0, io1) = readq (ioaddr priv) VTD_CTRL;
          v1 = v0 AND NOT VTD_CTRL_EVNT;
          v2 = v1 OR FIELD_PREP VTD_CTRL_EVNT (ucast event);
          io2 = writeq v2 VTD_CTRL io1;
          (r, v3, io3) = readq_poll_timeout_atomic n io2 VTD_CNTR
                           (\<lambda>v. FIELD_GET VTD_CNTR_EVNT v = ucast event)
      in if r \<noteq> OK
         then (0, priv\<lparr>ioaddr := io3,
                       dev_errs := dev_errs priv @
                         [''timeout, unmatched vtd event code in counter register.'']\<rparr>)
         else
           let (v4, io4) = readq io3 VTD_CNTR
           in (FIELD_GET VTD_CNTR_EVNT_CNTR v4, priv\<lparr>ioaddr := io4\<rparr>))"

definition vtd_sip_read_event_counter ::
  "nat \<Rightarrow> fme_perf_priv \<Rightarrow> u32 \<Rightarrow> u32 \<Rightarrow> u64 \<Rightarrow> u64 \<times> fme_perf_priv" where
  "vtd_sip_read_event_counter n priv event port_id dat =
     (let (v0, io1) = readq (ioaddr priv) VTD_SIP_CTRL;
          v1 = v0 AND NOT VTD_SIP_CTRL_EVNT;
          v2 = v1 OR FIELD_PREP VTD_SIP_CTRL_EVNT (ucast event);
          io2 = writeq v2 VTD_SIP_CTRL io1;
          (r, v3, io3) = readq_poll_timeout_atomic n io2 VTD_SIP_CNTR
                           (\<lambda>v. FIELD_GET VTD_SIP_CNTR_EVNT v = ucast event)
      in if r \<noteq> OK
         then (0, priv\<lparr>ioaddr := io3,
                       dev_errs := dev_errs priv @
                         [''timeout, unmatched vtd sip event code in counter register'']\<rparr>)
         else
           let (v4, io4) = readq io3 VTD_SIP_CNTR
           in (FIELD_GET VTD_SIP_CNTR_EVNT_CNTR v4, priv\<lparr>ioaddr := io4\<rparr>))"

subsection \<open>The event catalog\<close>

text \<open>
  \<open>struct fme_perf_event_attr\<close>; \<open>attr_name\<close> is the name of the device attribute. The
  macros \<open>FME_EVENT_*\<close> build the entries; \<open>data\<close> is zero where a macro does not set it.
\<close>

record fme_perf_event_attr =
  attr_name :: string
  event_id :: u32
  event_type :: u32
  is_port_event :: bool
  data :: u64

definition FME_EVENT_BASIC :: "string \<Rightarrow> u32 \<Rightarrow> fme_perf_event_attr" where
  "FME_EVENT_BASIC nm ev =
     \<lparr>attr_name = nm, event_id = ev, event_type = FME_EVTYPE_BASIC,
      is_port_event = False, data = 0\<rparr>"

definition FME_EVENT_CACHE :: "string \<Rightarrow> u32 \<Rightarrow> u64 \<Rightarrow> fme_perf_event_attr" where
  "FME_EVENT_CACHE nm ev d =
     \<lparr>attr_name = ''cache_'' @ nm, event_id = ev, event_type = FME_EVTYPE_CACHE,
      is_port_event = False, data = d\<rparr>"

definition FME_EVENT_FABRIC :: "string \<Rightarrow> u32 \<Rightarrow> fme_perf_event_attr" where
  "FME_EVENT_FABRIC nm ev =
     \<lparr>attr_name = ''fab_'' @ nm, event_id = ev, event_type = FME_EVTYPE_FABRIC,
      is_port_event = False, data = 0\<rparr>"

definition FME_EVENT_FABRIC_PORT :: "string \<Rightarrow> u32 \<Rightarrow> fme_perf_event_attr" where
  "FME_EVENT_FABRIC_PORT nm ev =
     \<lparr>attr_name = ''fab_port_'' @ nm, event_id = ev, event_type = FME_EVTYPE_FABRIC,
      is_port_event = True, data = 0\<rparr>"

definition FME_EVENT_VTD_PORT :: "string \<Rightarrow> u32 \<Rightarrow> fme_perf_event_attr" where
  "FME_EVENT_VTD_PORT nm ev =
     \<lparr>attr_name = ''vtd_port_'' @ nm, event_id = ev, event_type = FME_EVTYPE_VTD,
      is_port_event = True, data = 0\<rparr>"

definition FME_EVENT_VTD_SIP :: "string \<Rightarrow> u32 \<Rightarrow> fme_perf_event_attr" where
  "FME_EVENT_VTD_SIP nm ev =
     \<lparr>attr_name = ''vtd_sip_'' @ nm, event_id = ev, event_type = FME_EVTYPE_VTD_SIP,
      is_port_event = False, data = 0\<rparr>"

definition fme_perf_basic_events :: "fme_perf_event_attr list" where
  "fme_perf_basic_events = [FME_EVENT_BASIC ''clock'' BASIC_EVNT_CLK]"

definition fme_perf_cache_events :: "fme_perf_event_attr list" where
  "fme_perf_cache_events =
     [FME_EVENT_CACHE ''read_hit'' CACHE_EVNT_RD_HIT CACHE_CHANNEL_RD,
      FME_EVENT_CACHE ''read_miss'' CACHE_EVNT_RD_MISS CACHE_CHANNEL_RD,
      FME_EVENT_CACHE ''write_hit'' CACHE_EVNT_WR_HIT CACHE_CHANNEL_WR,
      FME_EVENT_CACHE ''write_miss'' CACHE_EVNT_WR_MISS CACHE_CHANNEL_WR,
      FME_EVENT_CACHE ''hold_request'' CACHE_EVNT_HOLD_REQ CACHE_CHANNEL_RD,
      FME_EVENT_CACHE ''data_write_port_contention'' CACHE_EVNT_DATA_WR_PORT_CONTEN
        CACHE_CHANNEL_WR,
      FME_EVENT_CACHE ''tag_write_port_contention'' CACHE_EVNT_TAG_WR_PORT_CONTEN
        CACHE_CHANNEL_WR,
      FME_EVENT_CACHE ''tx_req_stall'' CACHE_EVNT_TX_REQ_STALL CACHE_CHANNEL_RD,
      FME_EVENT_CACHE ''rx_req_stall'' CACHE_EVNT_RX_REQ_STALL CACHE_CHANNEL_RD,
      FME_EVENT_CACHE ''eviction'' CACHE_EVNT_EVICTIONS CACHE_CHANNEL_RD]"

definition fme_perf_fab_events :: "fme_perf_event_attr list" where
  "fme_perf_fab_events =
     [FME_EVENT_FABRIC ''pcie0_read'' FAB_EVNT_PCIE0_RD,
      FME_EVENT_FABRIC ''pcie0_write'' FAB_EVNT_PCIE0_WR,
      FME_EVENT_FABRIC ''pcie1_read'' FAB_EVNT_PCIE1_RD,
      FME_EVENT_FABRIC ''pcie1_write'' FAB_EVNT_PCIE1_WR,
      FME_EVENT_FABRIC ''upi_read'' FAB_EVNT_UPI_RD,
      FME_EVENT_FABRIC ''upi_write'' FAB_EVNT_UPI_WR,
      FME_EVENT_FABRIC ''mmio_read'' FAB_EVNT_MMIO_RD,
      FME_EVENT_FABRIC ''mmio_write'' FAB_EVNT_MMIO_WR,
      FME_EVENT_FABRIC_PORT ''pcie0_read'' FAB_EVNT_PCIE0_RD,
      FME_EVENT_FABRIC_PORT ''pcie0_write'' FAB_EVNT_PCIE0_WR,
      FME_EVENT_FABRIC_PORT ''pcie1_read'' FAB_EVNT_PCIE1_RD,
      FME_EVENT_FABRIC_PORT ''pcie1_write'' FAB_EVNT_PCIE1_WR,
      FME_EVENT_FABRIC_PORT ''upi_read'' FAB_EVNT_UPI_RD,
      FME_EVENT_FABRIC_PORT ''upi_write'' FAB_EVNT_UPI_WR,
      FME_EVENT_FABRIC_PORT ''mmio_read'' FAB_EVNT_MMIO_RD,
      FME_EVENT_FABRIC_PORT ''mmio_write'' FAB_EVNT_MMIO_WR]"

definition fme_perf_vtd_events :: "fme_perf_event_attr list" where
  "fme_perf_vtd_events =
     [FME_EVENT_VTD_PORT ''read_transaction'' VTD_EVNT_AFU_MEM_RD_TRANS,
      FME_EVENT_VTD_PORT ''write_transaction'' VTD_EVNT_AFU_MEM_WR_TRANS,
      FME_EVENT_VTD_PORT ''devtlb_read_hit'' VTD_EVNT_AFU_DEVTLB_RD_HIT,
      FME_EVENT_VTD_PORT ''devtlb_write_hit'' VTD_EVNT_AFU_DEVTLB_WR_HIT,
      FME_EVENT_VTD_PORT ''devtlb_4k_fill'' VTD_EVNT_DEVTLB_4K_FILL,
      FME_EVENT_VTD_PORT ''devtlb_2m_fill'' VTD_EVNT_DEVTLB_2M_FILL,
      FME_EVENT_VTD_PORT ''devtlb_1g_fill'' VTD_EVNT_DEVTLB_1G_FILL]"

definition fme_perf_vtd_sip_events :: "fme_perf_event_attr list" where
  "fme_perf_vtd_sip_events =
     [FME_EVENT_VTD_SIP ''iotlb_4k_hit'' VTD_SIP_EVNT_IOTLB_4K_HIT,
      FME_EVENT_VTD_SIP ''iotlb_2m_hit'' VTD_SIP_EVNT_IOTLB_2M_HIT,
      FME_EVENT_VTD_SIP ''iotlb_1g_hit'' VTD_SIP_EVNT_IOTLB_1G_HIT,
      FME_EVENT_VTD_SIP ''slpwc_l3_hit'' VTD_SIP_EVNT_SLPWC_L3_HIT,
      FME_EVENT_VTD_SIP ''slpwc_l4_hit'' VTD_SIP_EVNT_SLPWC_L4_HIT,
      FME_EVENT_VTD_SIP ''rcc_hit'' VTD_SIP_EVNT_RCC_HIT,
      FME_EVENT_VTD_SIP ''iotlb_4k_miss'' VTD_SIP_EVNT_IOTLB_4K_MISS,
      FME_EVENT_VTD_SIP ''iotlb_2m_miss'' VTD_SIP_EVNT_IOTLB_2M_MISS,
      FME_EVENT_VTD_SIP ''iotlb_1g_miss'' VTD_SIP_EVNT_IOTLB_1G_MISS,
      FME_EVENT_VTD_SIP ''slpwc_l3_miss'' VTD_SIP_EVNT_SLPWC_L3_MISS,
      FME_EVENT_VTD_SIP ''slpwc_l4_miss'' VTD_SIP_EVNT_SLPWC_L4_MISS,
      FME_EVENT_VTD_SIP ''rcc_miss'' VTD_SIP_EVNT_RCC_MISS]"

subsection \<open>Callbacks and event groups\<close>

text \<open>
  \<open>struct fme_perf_event_ops\<close>: a callback that the C code leaves \<open>NULL\<close> is \<open>None\<close>.
  \<open>struct fme_perf_event_group\<close>: \<open>num\<close> is the length of \<open>ev_attrs\<close> (\<open>ARRAY_SIZE\<close>).
\<close>

record fme_perf_event_ops =
  event_init :: "(fme_perf_priv \<Rightarrow> u32 \<Rightarrow> u32 \<Rightarrow> u64 \<Rightarrow> ret \<times> fme_perf_priv) option"
  event_destroy :: "(fme_perf_priv \<Rightarrow> u32 \<Rightarrow> u32 \<Rightarrow> u64 \<Rightarrow> fme_perf_priv) option"
  read_counter :: "nat \<Rightarrow> fme_perf_priv \<Rightarrow> u32 \<Rightarrow> u32 \<Rightarrow> u64 \<Rightarrow> u64 \<times> fme_perf_priv"

definition fme_perf_basic_ops :: fme_perf_event_ops where
  "fme_perf_basic_ops =
     \<lparr>event_init = None, event_destroy = None, read_counter = basic_read_event_counter\<rparr>"

definition fme_perf_cache_ops :: fme_perf_event_ops where
  "fme_perf_cache_ops =
     \<lparr>event_init = None, event_destroy = None, read_counter = cache_read_event_counter\<rparr>"

definition fme_perf_fab_ops :: fme_perf_event_ops where
  "fme_perf_fab_ops =
     \<lparr>event_init = Some fabric_event_init, event_destroy = Some fabric_event_destroy,
      read_counter = fabric_read_event_counter\<rparr>"

definition fme_perf_vtd_ops :: fme_perf_event_ops where
  "fme_perf_vtd_ops =
     \<lparr>event_init = None, event_destroy = None, read_counter = vtd_read_event_counter\<rparr>"

definition fme_perf_vtd_sip_ops :: fme_perf_event_ops where
  "fme_perf_vtd_sip_ops =
     \<lparr>event_init = None, event_destroy = None, read_counter = vtd_sip_read_event_counter\<rparr>"

record fme_perf_event_group =
  ev_attrs :: "fme_perf_event_attr list"
  ops :: fme_perf_event_ops

text \<open>The group array is indexed by \<open>FME_EVTYPE_*\<close>.\<close>

definition fme_perf_event_groups :: "fme_perf_event_group list" where
  "fme_perf_event_groups =
     [\<lparr>ev_attrs = fme_perf_basic_events, ops = fme_perf_basic_ops\<rparr>,
      \<lparr>ev_attrs = fme_perf_cache_events, ops = fme_perf_cache_ops\<rparr>,
      \<lparr>ev_attrs = fme_perf_fab_events, ops = fme_perf_fab_ops\<rparr>,
      \<lparr>ev_attrs = fme_perf_vtd_events, ops = fme_perf_vtd_ops\<rparr>,
      \<lparr>ev_attrs = fme_perf_vtd_sip_events, ops = fme_perf_vtd_sip_ops\<rparr>]"

subsection \<open>Resolving an event\<close>

text \<open>
  The \<open>for\<close> loop of \<open>get_event_attr\<close> as a recursion over the group's entries: the first
  entry with the requested id and scope is returned, \<open>None\<close> is \<open>NULL\<close>.
\<close>

fun scan_ev_attrs ::
  "u32 \<Rightarrow> bool \<Rightarrow> fme_perf_event_attr list \<Rightarrow> fme_perf_event_attr option" where
  "scan_ev_attrs eid port_ev [] = None"
| "scan_ev_attrs eid port_ev (a # as) =
     (if eid = event_id a \<and> port_ev = is_port_event a then Some a
      else scan_ev_attrs eid port_ev as)"

definition get_event_attr :: "u32 \<Rightarrow> u32 \<Rightarrow> u32 \<Rightarrow> fme_perf_event_attr option" where
  "get_event_attr eid etype port_id =
     (let port_ev = (port_id \<noteq> FME_PORTID_ROOT) in
      if etype > FME_EVTYPE_MAX then None
      else scan_ev_attrs eid port_ev (ev_attrs (fme_perf_event_groups ! unat etype)))"

text \<open>
  \<open>get_event_ops\<close> indexes the group array without a check, as the C code does. Its
  callers below say what happens when the index is out of range.
\<close>

definition get_event_ops :: "u32 \<Rightarrow> fme_perf_event_ops" where
  "get_event_ops etype = ops (fme_perf_event_groups ! unat etype)"

subsection \<open>The perf event and the pmu callbacks\<close>

text \<open>
  The fields of \<open>struct perf_event\<close> and of its \<open>struct hw_perf_event\<close> that the driver
  reads or writes: \<open>attr_type\<close>, \<open>attr_config\<close> and \<open>attr_sample_period\<close> are
  \<open>event->attr.type\<close>, \<open>.config\<close> and \<open>.sample_period\<close>; \<open>pmu_type\<close> is
  \<open>event->pmu->type\<close>; \<open>has_destroy\<close> says that \<open>event->destroy\<close> is set to
  \<open>fme_perf_event_destroy\<close>. \<open>cpu\<close>, \<open>attach_state\<close> and \<open>idx\<close> are C \<open>int\<close>s, kept as
  their 32 bits (\<open>sint\<close> reads the sign).
\<close>

record hw_perf_event =
  config :: u64
  config_base :: u64
  event_base :: u64
  idx :: u32
  prev_count :: u64

record perf_event =
  attr_type :: u32
  attr_config :: u64
  attr_sample_period :: u64
  pmu_type :: u32
  attach_state :: u32
  cpu :: u32
  has_destroy :: bool
  count :: u64
  hw :: hw_perf_event

text \<open>
  Modelled from the spec: \<open>is_sampling_event\<close> and \<open>PERF_ATTACH_TASK\<close>
  (linux/perf_event.h) are not part of the driver's source file. The spec: the open
  "rejects configurations requesting sampling-based collection or per-task attribution".
  In the kernel an event samples when its \<open>attr.sample_period\<close> is not zero, and
  \<open>PERF_ATTACH_TASK\<close> is the bit \<open>0x04\<close> of \<open>attach_state\<close>. The flags
  \<open>PERF_EF_START\<close> and \<open>PERF_EF_UPDATE\<close> of the same header are \<open>0x01\<close> and \<open>0x04\<close>.
\<close>

definition is_sampling_event :: "perf_event \<Rightarrow> bool" where
  "is_sampling_event event = (attr_sample_period event \<noteq> 0)"

definition PERF_ATTACH_TASK :: u32 where "PERF_ATTACH_TASK = 0x04"

definition PERF_EF_START :: u32 where "PERF_EF_START = 0x01"

definition PERF_EF_UPDATE :: u32 where "PERF_EF_UPDATE = 0x04"

definition fme_perf_event_init ::
  "fme_perf_priv \<Rightarrow> perf_event \<Rightarrow> ret \<times> perf_event \<times> fme_perf_priv" where
  "fme_perf_event_init priv event =
     (if attr_type event \<noteq> pmu_type event then (Err ENOENT, event, priv)
      else if is_sampling_event event \<or> attach_state event AND PERF_ATTACH_TASK \<noteq> 0
      then (Err EINVAL, event, priv)
      else if sint (cpu event) < 0 then (Err EINVAL, event, priv)
      else
        let eid = (ucast (FIELD_GET FME_EVENT_MASK (attr_config event)) :: u32);
            etype = (ucast (FIELD_GET FME_EVTYPE_MASK (attr_config event)) :: u32);
            port_id = (ucast (FIELD_GET FME_PORTID_MASK (attr_config event)) :: u32)
        in case get_event_attr eid etype port_id of
             None \<Rightarrow> (Err EINVAL, event, priv)
           | Some ev_attr \<Rightarrow>
               if (is_port_event ev_attr \<and> port_id \<ge> PERF_MAX_PORT_NUM) \<or>
                  (\<not> is_port_event ev_attr \<and> port_id \<noteq> FME_PORTID_ROOT)
               then (Err EINVAL, event, priv)
               else
                 let hwc = (hw event)\<lparr>event_base := ucast etype, idx := eid,
                                       config_base := ucast port_id,
                                       config := data ev_attr\<rparr>;
                     event1 = event\<lparr>hw := hwc, has_destroy := True\<rparr>
                 in case event_init (get_event_ops (ucast (event_base hwc))) of
                      Some init \<Rightarrow>
                        (let (r, priv1) = init priv (idx hwc) (ucast (config_base hwc))
                                            (config hwc)
                         in (r, event1, priv1))
                    | None \<Rightarrow> (OK, event1, priv))"

text \<open>
  The callbacks below take the group's callbacks from \<open>event->hw.event_base\<close>. After a
  successful \<open>fme_perf_event_init\<close> this is an event type; for any other value the C code
  reads outside the group array, and the model returns \<open>None\<close>.
\<close>

definition fme_perf_event_destroy ::
  "fme_perf_priv \<Rightarrow> perf_event \<Rightarrow> fme_perf_priv option" where
  "fme_perf_event_destroy priv event =
     (if (ucast (event_base (hw event)) :: u32) > FME_EVTYPE_MAX then None
      else case event_destroy (get_event_ops (ucast (event_base (hw event)))) of
             Some destroy \<Rightarrow>
               Some (destroy priv (idx (hw event)) (ucast (config_base (hw event)))
                       (config (hw event)))
           | None \<Rightarrow> Some priv)"

definition fme_perf_event_update ::
  "nat \<Rightarrow> fme_perf_priv \<Rightarrow> perf_event \<Rightarrow> (perf_event \<times> fme_perf_priv) option" where
  "fme_perf_event_update n priv event =
     (if (ucast (event_base (hw event)) :: u32) > FME_EVTYPE_MAX then None
      else
        let (now, priv1) = read_counter (get_event_ops (ucast (event_base (hw event))))
                             n priv (idx (hw event)) (ucast (config_base (hw event)))
                             (config (hw event));
            prev = prev_count (hw event);
            delta = now - prev
        in Some (event\<lparr>count := count event + delta\<rparr>, priv1))"

definition fme_perf_event_start ::
  "nat \<Rightarrow> fme_perf_priv \<Rightarrow> perf_event \<Rightarrow> u32 \<Rightarrow> (perf_event \<times> fme_perf_priv) option" where
  "fme_perf_event_start n priv event flags =
     (if (ucast (event_base (hw event)) :: u32) > FME_EVTYPE_MAX then None
      else
        let (cnt, priv1) = read_counter (get_event_ops (ucast (event_base (hw event))))
                             n priv (idx (hw event)) (ucast (config_base (hw event)))
                             (config (hw event))
        in Some (event\<lparr>hw := (hw event)\<lparr>prev_count := cnt\<rparr>\<rparr>, priv1))"

definition fme_perf_event_stop ::
  "nat \<Rightarrow> fme_perf_priv \<Rightarrow> perf_event \<Rightarrow> u32 \<Rightarrow> (perf_event \<times> fme_perf_priv) option" where
  "fme_perf_event_stop n priv event flags = fme_perf_event_update n priv event"

definition fme_perf_event_read ::
  "nat \<Rightarrow> fme_perf_priv \<Rightarrow> perf_event \<Rightarrow> (perf_event \<times> fme_perf_priv) option" where
  "fme_perf_event_read n priv event = fme_perf_event_update n priv event"

text \<open>
  \<open>fme_perf_event_add\<close> starts the event when \<open>PERF_EF_START\<close> is among the flags
  and returns 0; \<open>fme_perf_event_del\<close> stops it with \<open>PERF_EF_UPDATE\<close>.
\<close>

definition fme_perf_event_add ::
  "nat \<Rightarrow> fme_perf_priv \<Rightarrow> perf_event \<Rightarrow> u32 \<Rightarrow> (ret \<times> perf_event \<times> fme_perf_priv) option" where
  "fme_perf_event_add n priv event flags =
     (if flags AND PERF_EF_START \<noteq> 0
      then case fme_perf_event_start n priv event flags of
             None \<Rightarrow> None
           | Some (event1, priv1) \<Rightarrow> Some (OK, event1, priv1)
      else Some (OK, event, priv))"

definition fme_perf_event_del ::
  "nat \<Rightarrow> fme_perf_priv \<Rightarrow> perf_event \<Rightarrow> u32 \<Rightarrow> (perf_event \<times> fme_perf_priv) option" where
  "fme_perf_event_del n priv event flags = fme_perf_event_stop n priv event PERF_EF_UPDATE"

subsection \<open>Device attach\<close>

text \<open>
  \<open>fme_perf_setup_hardware\<close> reads the working mode of the fabric counters from
  \<open>FAB_CTRL\<close>. What the rest of the kernel decides during attach is an input:
  whether \<open>devm_kzalloc\<close> and \<open>devm_kcalloc\<close> return memory and what
  \<open>perf_pmu_register\<close> returns. \<open>devm_kzalloc\<close> returns zeroed memory, so every field
  of the private data starts as zero.
\<close>

definition fme_perf_setup_hardware :: "fme_perf_priv \<Rightarrow> fme_perf_priv" where
  "fme_perf_setup_hardware priv =
     (let (v, io1) = readq (ioaddr priv) FAB_CTRL in
      if FIELD_GET FAB_PORT_FILTER v = FAB_PORT_FILTER_DISABLE
      then priv\<lparr>ioaddr := io1, fab_port_id := FME_PORTID_ROOT\<rparr>
      else priv\<lparr>ioaddr := io1, fab_port_id := ucast (FIELD_GET FAB_PORT_ID v)\<rparr>)"

record attach_env =
  kzalloc_ok :: bool
  kcalloc_ok :: bool
  pmu_register_ret :: ret

definition fme_perf_setup_attrs :: "attach_env \<Rightarrow> fme_perf_priv \<Rightarrow> ret" where
  "fme_perf_setup_attrs env priv = (if kcalloc_ok env then OK else Err ENOMEM)"

definition fme_perf_pmu_register :: "attach_env \<Rightarrow> fme_perf_priv \<Rightarrow> ret \<times> fme_perf_priv" where
  "fme_perf_pmu_register env priv =
     (case fme_perf_setup_attrs env priv of
        Err e \<Rightarrow> (Err e, priv)
      | OK \<Rightarrow> (pmu_register_ret env, fme_perf_setup_hardware priv))"

definition fme_perf_init :: "attach_env \<Rightarrow> mmio \<Rightarrow> u64 \<Rightarrow> errno + fme_perf_priv" where
  "fme_perf_init env feature_ioaddr fid =
     (if \<not> kzalloc_ok env then Inl ENOMEM
      else
        let priv = \<lparr>ioaddr = feature_ioaddr, feature_id = fid, fab_users = 0,
                    fab_port_id = 0, dev_errs = []\<rparr>
        in case fme_perf_pmu_register env priv of
             (Err e, priv1) \<Rightarrow> Inl e
           | (OK, priv1) \<Rightarrow> Inr priv1)"

subsection \<open>Derived notions and example states\<close>

text \<open>
  The value that \<open>fabric_event_init\<close> writes to \<open>FAB_CTRL\<close> when it changes the working
  mode, from the value \<open>v\<close> it read: both fields cleared, then the filter field set from
  \<open>y\<close> and the port id field from \<open>x\<close>.
\<close>

definition fab_filter_prog :: "u64 \<Rightarrow> u64 \<Rightarrow> u64 \<Rightarrow> u64" where
  "fab_filter_prog v y x =
     (v AND NOT (FAB_PORT_FILTER OR FAB_PORT_ID)) OR FIELD_PREP FAB_PORT_FILTER y
        OR FIELD_PREP FAB_PORT_ID x"

text \<open>
  A register window in which every register reads zero and nothing has been accessed,
  and private data on it with no fabric user, in overall mode.
\<close>

definition quiet_io :: mmio where
  "quiet_io = \<lparr>latched = (\<lambda>_. 0), incoming = (\<lambda>_. []), trace = []\<rparr>"

definition idle_priv :: fme_perf_priv where
  "idle_priv = \<lparr>ioaddr = quiet_io, feature_id = 0, fab_users = 0,
                 fab_port_id = FME_PORTID_ROOT, dev_errs = []\<rparr>"

text \<open>
  The value that the \<open>k\<close>-th of a run of consecutive reads of one register returns
  (counting from 0): what a poll loop sees.
\<close>

fun nth_read :: "mmio \<Rightarrow> nat \<Rightarrow> nat \<Rightarrow> u64" where
  "nth_read io addr 0 = fst (readq io addr)"
| "nth_read io addr (Suc k) = nth_read (snd (readq io addr)) addr k"

text \<open>
  A fabric counter that has wrapped: \<open>FAB_CNTR\<close> reads 3 with event tag 0. And a session
  on the aggregate fabric event \<open>fab_pcie0_read\<close> as a successful open leaves it, with the
  given snapshot and accumulated count.
\<close>

definition wrapped_priv :: fme_perf_priv where
  "wrapped_priv = idle_priv\<lparr>ioaddr := quiet_io\<lparr>latched := (\<lambda>_. 0)(FAB_CNTR := 3)\<rparr>\<rparr>"

definition fab_session :: "u64 \<Rightarrow> u64 \<Rightarrow> perf_event" where
  "fab_session prev acc =
     \<lparr>attr_type = 8, attr_config = 0xff2000, attr_sample_period = 0, pmu_type = 8,
      attach_state = 0, cpu = 0, has_destroy = True, count = acc,
      hw = \<lparr>config = 0, config_base = 0xff, event_base = 2, idx = 0, prev_count = prev\<rparr>\<rparr>"

text \<open>
  Cache counters whose two banks read 7 and 5 with event tag 0, and the register window
  after \<open>cache_read_event_counter\<close> has selected an event on them.
\<close>

definition cache_priv :: fme_perf_priv where
  "cache_priv =
     idle_priv\<lparr>ioaddr := quiet_io\<lparr>latched := (\<lambda>_. 0)(CACHE_CNTR0 := 7, CACHE_CNTR1 := 5)\<rparr>\<rparr>"

definition cache_selected :: "u32 \<Rightarrow> u64 \<Rightarrow> mmio" where
  "cache_selected event dat =
     writeq (((fst (readq (ioaddr cache_priv) CACHE_CTRL)
                 AND NOT (CACHE_CHANNEL_SEL OR CACHE_CTRL_EVNT))
               OR FIELD_PREP CACHE_CHANNEL_SEL (ucast (ucast dat :: u8)))
             OR FIELD_PREP CACHE_CTRL_EVNT (ucast event))
       CACHE_CTRL (snd (readq (ioaddr cache_priv) CACHE_CTRL))"

text \<open>
  What is checked of the group with index \<open>i\<close>: no two entries share both id and scope,
  and every entry carries the group's index as its event type.
\<close>

definition group_ok :: "nat \<Rightarrow> bool" where
  "group_ok i \<longleftrightarrow>
     distinct (map (\<lambda>a. (event_id a, is_port_event a)) (ev_attrs (fme_perf_event_groups ! i)))
   \<and> list_all (\<lambda>a. event_type a = of_nat i) (ev_attrs (fme_perf_event_groups ! i))"






definition sampling_request :: "u32 \<Rightarrow> perf_event" where
  "sampling_request ty =
     \<lparr>attr_type = ty, attr_config = 0xff2000, attr_sample_period = 1000, pmu_type = 8,
      attach_state = 0, cpu = 0, has_destroy = False, count = 0,
      hw = \<lparr>config = 0, config_base = 0, event_base = 0, idx = 0, prev_count = 0\<rparr>\<rparr>"

definition port2_io :: mmio where
  "port2_io = quiet_io\<lparr>latched := (\<lambda>_. 0)(FAB_CTRL := 0xA00000)\<rparr>"

definition attach_ok :: attach_env where
  "attach_ok = \<lparr>kzalloc_ok = True, kcalloc_ok = True, pmu_register_ret = OK\<rparr>"







section \<open>Properties\<close>

subsection \<open>Bit fields of the fabric control register\<close>

lemma FAB_PORT_ID_val: "FAB_PORT_ID = push_bit 20 (mask 2)"
  unfolding FAB_PORT_ID_def GENMASK_ULL_def by code_simp

lemma FAB_PORT_FILTER_val: "FAB_PORT_FILTER = push_bit 23 (mask 1)"
  unfolding FAB_PORT_FILTER_def BIT_ULL_def by simp

lemma bf_shf_FAB_PORT_ID: "bf_shf (push_bit 20 (mask 2)) = 20"
  unfolding bf_shf_def by code_simp

lemma bf_shf_FAB_PORT_FILTER: "bf_shf (push_bit 23 (mask 1)) = 23"
  unfolding bf_shf_def by code_simp

lemma two_fields_low:
  fixes v x y :: u64
  assumes "lp + kp \<le> lf" "lf + kf \<le> 64"
  shows "drop_bit lp (((v AND NOT (push_bit lf (mask kf) OR push_bit lp (mask kp)))
            OR (push_bit lf y AND push_bit lf (mask kf))
            OR (push_bit lp x AND push_bit lp (mask kp))) AND push_bit lp (mask kp))
         = take_bit kp x"
  using assms by (intro bit_eqI) (auto simp add: bit_simps)

lemma two_fields_high:
  fixes v x y :: u64
  assumes "lp + kp \<le> lf" "lf + kf \<le> 64"
  shows "drop_bit lf (((v AND NOT (push_bit lf (mask kf) OR push_bit lp (mask kp)))
            OR (push_bit lf y AND push_bit lf (mask kf))
            OR (push_bit lp x AND push_bit lp (mask kp))) AND push_bit lf (mask kf))
         = take_bit kf y"
  using assms by (intro bit_eqI) (auto simp add: bit_simps)

lemma two_fields_rest:
  fixes v x y :: u64
  shows "((v AND NOT (push_bit lf (mask kf) OR push_bit lp (mask kp)))
            OR (push_bit lf y AND push_bit lf (mask kf))
            OR (push_bit lp x AND push_bit lp (mask kp)))
           AND NOT (push_bit lf (mask kf) OR push_bit lp (mask kp))
         = v AND NOT (push_bit lf (mask kf) OR push_bit lp (mask kp))"
  by (intro bit_eqI) (auto simp add: bit_simps)

lemma fab_filter_prog_port: "FIELD_GET FAB_PORT_ID (fab_filter_prog v y x) = take_bit 2 x"
  unfolding fab_filter_prog_def FIELD_GET_def FIELD_PREP_def FAB_PORT_ID_val FAB_PORT_FILTER_val
    bf_shf_FAB_PORT_ID bf_shf_FAB_PORT_FILTER
  by (rule two_fields_low) simp_all

lemma fab_filter_prog_filter: "FIELD_GET FAB_PORT_FILTER (fab_filter_prog v y x) = take_bit 1 y"
  unfolding fab_filter_prog_def FIELD_GET_def FIELD_PREP_def FAB_PORT_ID_val FAB_PORT_FILTER_val
    bf_shf_FAB_PORT_ID bf_shf_FAB_PORT_FILTER
  by (rule two_fields_high) simp_all

lemma fab_filter_prog_rest:
  "fab_filter_prog v y x AND NOT (FAB_PORT_FILTER OR FAB_PORT_ID)
     = v AND NOT (FAB_PORT_FILTER OR FAB_PORT_ID)"
  unfolding fab_filter_prog_def FIELD_GET_def FIELD_PREP_def FAB_PORT_ID_val FAB_PORT_FILTER_val
    bf_shf_FAB_PORT_ID bf_shf_FAB_PORT_FILTER
  by (rule two_fields_rest)

lemma FIELD_PREP_0: "FIELD_PREP m 0 = 0"
  by (simp add: FIELD_PREP_def)

lemma unat_take_bit2_ucast: "unat (take_bit 2 (ucast (p::u32) :: u64)) = unat p mod 4"
proof -
  have "unat (ucast p :: u64) = unat p"
    by (simp add: unsigned_ucast_eq take_bit_nat_eq_self_iff unsigned_less [where 'b=32, simplified] order_less_trans [OF unsigned_less])
  then show ?thesis
    by (simp add: take_bit_eq_mod unat_mod)
qed
lemma fabric_event_init_conflict:
  "fab_users priv \<noteq> 0 \<and> fab_port_id priv \<noteq> port_id \<Longrightarrow>
   fabric_event_init priv event port_id dat = (Err EOPNOTSUPP, priv)"
  by (simp add: fabric_event_init_def)

lemma fabric_event_init_same:
  "fab_port_id priv = port_id \<Longrightarrow>
   fabric_event_init priv event port_id dat = (OK, priv\<lparr>fab_users := fab_users priv + 1\<rparr>)"
  by (simp add: fabric_event_init_def Let_def)

lemma fabric_event_init_switch:
  assumes "fab_users priv = 0" "fab_port_id priv \<noteq> port_id"
    and "readq (ioaddr priv) FAB_CTRL = (v0, io1)"
  shows "fabric_event_init priv event port_id dat =
     (OK, priv\<lparr>fab_users := fab_users priv + 1, fab_port_id := port_id,
               ioaddr := writeq (if port_id = FME_PORTID_ROOT then fab_filter_prog v0 0 0
                                  else fab_filter_prog v0 1 (ucast port_id)) FAB_CTRL io1\<rparr>)"
  using assms
  by (simp add: fabric_event_init_def Let_def fab_filter_prog_def FIELD_PREP_0
      FAB_PORT_FILTER_DISABLE_def FAB_PORT_FILTER_ENABLE_def or.assoc)

subsection \<open>The fabric arbiter\<close>

text \<open>
  What \<open>fabric_event_init\<close> does for any port: the two-bit port id field receives the
  port modulo 4.
\<close>

lemma fabric_event_init_general:
  assumes "fabric_event_init priv event port_id dat = (r, priv')"
    and "readq (ioaddr priv) FAB_CTRL = (v0, io1)"
  shows
    "(r = Err EOPNOTSUPP \<longleftrightarrow> fab_users priv \<noteq> 0 \<and> fab_port_id priv \<noteq> port_id)
   \<and> (r \<noteq> Err EOPNOTSUPP \<longleftrightarrow> r = OK)
   \<and> (r = Err EOPNOTSUPP \<longrightarrow> priv' = priv)
   \<and> (r = OK \<longrightarrow>
         fab_users priv' = fab_users priv + 1 \<and> fab_port_id priv' = port_id
       \<and> feature_id priv' = feature_id priv \<and> dev_errs priv' = dev_errs priv)
   \<and> (r = OK \<and> fab_port_id priv = port_id \<longrightarrow> ioaddr priv' = ioaddr priv)
   \<and> (r = OK \<and> fab_port_id priv \<noteq> port_id \<longrightarrow>
         ioaddr priv' = writeq (latched (ioaddr priv') FAB_CTRL) FAB_CTRL io1
       \<and> trace (ioaddr priv') =
           trace (ioaddr priv) @ [Rd FAB_CTRL v0, Wr FAB_CTRL (latched (ioaddr priv') FAB_CTRL)]
       \<and> latched (ioaddr priv') FAB_CTRL AND NOT (FAB_PORT_FILTER OR FAB_PORT_ID)
           = v0 AND NOT (FAB_PORT_FILTER OR FAB_PORT_ID)
       \<and> FIELD_GET FAB_PORT_FILTER (latched (ioaddr priv') FAB_CTRL)
           = (if port_id = FME_PORTID_ROOT then FAB_PORT_FILTER_DISABLE
              else FAB_PORT_FILTER_ENABLE)
       \<and> unat (FIELD_GET FAB_PORT_ID (latched (ioaddr priv') FAB_CTRL))
           = (if port_id = FME_PORTID_ROOT then 0 else unat port_id mod 4))"
proof (cases "fab_users priv \<noteq> 0 \<and> fab_port_id priv \<noteq> port_id")
  case True
  then show ?thesis
    using assms(1) fabric_event_init_conflict [OF True, of event dat] by auto
next
  case nc: False
  show ?thesis
  proof (cases "fab_port_id priv = port_id")
    case True
    then show ?thesis
      using assms(1) fabric_event_init_same [OF True, of event dat] by auto
  next
    case False
    with nc have u0: "fab_users priv = 0" by simp
    have tr: "trace io1 = trace (ioaddr priv) @ [Rd FAB_CTRL v0]"
      using assms(2) by (auto simp: readq_def split: list.splits)
    show ?thesis
      using assms(1) fabric_event_init_switch [OF u0 False assms(2), of event dat] False tr u0
      by (auto simp: writeq_def fab_filter_prog_rest [simplified] fab_filter_prog_filter
          fab_filter_prog_port unat_take_bit2_ucast
          FAB_PORT_FILTER_DISABLE_def FAB_PORT_FILTER_ENABLE_def)
  qed
qed

lemma port_id_field_exact:
  fixes port_id :: u32 and f :: u64
  assumes "unat f = unat port_id mod 4" and "port_id < 4"
  shows "f = ucast port_id"
proof -
  have "unat port_id < 4"
    using assms(2) by (simp add: word_less_nat_alt)
  moreover have "unat (ucast port_id :: u64) = unat port_id"
    by (simp add: unsigned_ucast_eq take_bit_nat_eq_self_iff
        unsigned_less [where 'b=32, simplified] order_less_trans [OF unsigned_less])
  ultimately have "unat f = unat (ucast port_id :: u64)"
    using assms(1) by simp
  then show ?thesis
    by (simp add: word_unat_eq_iff)
qed

text \<open>
  C1. For every state of the arbiter and every port that can be requested of it (the
  aggregate port \<open>0xff\<close> or a port id of the two-bit port id field; the open path,
  \<open>fme_perf_event_init\<close>, passes only \<open>0xff\<close> and ports below \<open>PERF_MAX_PORT_NUM\<close>),
  \<open>fabric_event_init\<close> fails (with \<open>-EOPNOTSUPP\<close>, the spec's "Busy") if and only if
  \<open>fab_users\<close> is not zero and \<open>fab_port_id\<close> differs from the requested port; on that
  failure the private data is unchanged. On success \<open>fab_users\<close> is incremented by
  exactly one and \<open>fab_port_id\<close> is the requested port. The register window is accessed
  if and only if the prior \<open>fab_port_id\<close> differed from the requested port: then
  \<open>FAB_CTRL\<close> is read once and written once, every bit outside the port filter and port
  id fields keeps the value read, the filter is disabled for the aggregate port and
  enabled otherwise, and the port id field holds the requested port (0 for the aggregate
  port).
\<close>

theorem fabric_event_init_spec:
  assumes "fabric_event_init priv event port_id dat = (r, priv')"
    and "readq (ioaddr priv) FAB_CTRL = (v0, io1)"
    and "port_id = FME_PORTID_ROOT \<or> port_id < 4"
  shows
    "(r = Err EOPNOTSUPP \<longleftrightarrow> fab_users priv \<noteq> 0 \<and> fab_port_id priv \<noteq> port_id)
   \<and> (r \<noteq> Err EOPNOTSUPP \<longleftrightarrow> r = OK)
   \<and> (r = Err EOPNOTSUPP \<longrightarrow> priv' = priv)
   \<and> (r = OK \<longrightarrow>
         fab_users priv' = fab_users priv + 1 \<and> fab_port_id priv' = port_id
       \<and> feature_id priv' = feature_id priv \<and> dev_errs priv' = dev_errs priv)
   \<and> (r = OK \<and> fab_port_id priv = port_id \<longrightarrow> ioaddr priv' = ioaddr priv)
   \<and> (r = OK \<and> fab_port_id priv \<noteq> port_id \<longrightarrow>
         ioaddr priv' = writeq (latched (ioaddr priv') FAB_CTRL) FAB_CTRL io1
       \<and> trace (ioaddr priv') =
           trace (ioaddr priv) @ [Rd FAB_CTRL v0, Wr FAB_CTRL (latched (ioaddr priv') FAB_CTRL)]
       \<and> latched (ioaddr priv') FAB_CTRL AND NOT (FAB_PORT_FILTER OR FAB_PORT_ID)
           = v0 AND NOT (FAB_PORT_FILTER OR FAB_PORT_ID)
       \<and> FIELD_GET FAB_PORT_FILTER (latched (ioaddr priv') FAB_CTRL)
           = (if port_id = FME_PORTID_ROOT then FAB_PORT_FILTER_DISABLE
              else FAB_PORT_FILTER_ENABLE)
       \<and> FIELD_GET FAB_PORT_ID (latched (ioaddr priv') FAB_CTRL)
           = (if port_id = FME_PORTID_ROOT then 0 else ucast port_id))"
proof -
  note g = fabric_event_init_general [OF assms(1,2)]
  have pf: "FIELD_GET FAB_PORT_ID (latched (ioaddr priv') FAB_CTRL)
           = (if port_id = FME_PORTID_ROOT then 0 else ucast port_id)"
    if s: "r = OK \<and> fab_port_id priv \<noteq> port_id"
  proof (cases "port_id = FME_PORTID_ROOT")
    case True
    then have "unat (FIELD_GET FAB_PORT_ID (latched (ioaddr priv') FAB_CTRL)) = 0"
      using g s by simp
    then show ?thesis
      using True by (simp add: unat_eq_0)
  next
    case False
    then have lt: "port_id < 4"
      using assms(3) by simp
    have "unat (FIELD_GET FAB_PORT_ID (latched (ioaddr priv') FAB_CTRL)) = unat port_id mod 4"
      using g s False by simp
    then show ?thesis
      using False port_id_field_exact [OF _ lt] by simp
  qed
  show ?thesis
    using g pf by blast
qed

theorem fabric_event_init_spec_witness:
  "fabric_event_init idle_priv 0 0 0 =
     (fst (fabric_event_init idle_priv 0 0 0), snd (fabric_event_init idle_priv 0 0 0))
   \<and> readq (ioaddr idle_priv) FAB_CTRL = (0, quiet_io\<lparr>trace := [Rd FAB_CTRL 0]\<rparr>)
   \<and> (0 :: u32) < 4
   \<and> fst (fabric_event_init idle_priv 0 0 0) = OK
   \<and> fab_users (snd (fabric_event_init idle_priv 0 0 0)) = 1
   \<and> fab_port_id (snd (fabric_event_init idle_priv 0 0 0)) = 0
   \<and> trace (ioaddr (snd (fabric_event_init idle_priv 0 0 0))) =
        [Rd FAB_CTRL 0,
         Wr FAB_CTRL (latched (ioaddr (snd (fabric_event_init idle_priv 0 0 0))) FAB_CTRL)]
   \<and> FIELD_GET FAB_PORT_FILTER
         (latched (ioaddr (snd (fabric_event_init idle_priv 0 0 0))) FAB_CTRL) = 1
   \<and> FIELD_GET FAB_PORT_ID
         (latched (ioaddr (snd (fabric_event_init idle_priv 0 0 0))) FAB_CTRL) = 0"
proof -
  have rd: "readq (ioaddr idle_priv) FAB_CTRL = (0, quiet_io\<lparr>trace := [Rd FAB_CTRL 0]\<rparr>)"
    by (simp add: readq_def idle_priv_def quiet_io_def)
  have pc: "fabric_event_init idle_priv 0 0 0 =
     (fst (fabric_event_init idle_priv 0 0 0), snd (fabric_event_init idle_priv 0 0 0))"
    by simp
  have pt: "(0 :: u32) = FME_PORTID_ROOT \<or> (0 :: u32) < 4"
    by simp
  have f: "fab_users idle_priv = 0" "fab_port_id idle_priv = 0xff"
    "trace (ioaddr idle_priv) = []"
    by (simp_all add: idle_priv_def quiet_io_def FME_PORTID_ROOT_def)
  show ?thesis
    using fabric_event_init_spec [OF pc rd pt] rd f
    by (auto simp: FME_PORTID_ROOT_def FAB_PORT_FILTER_ENABLE_def)
qed

text \<open>
  C8. Closing a fabric session (\<open>fabric_event_destroy\<close>) decrements \<open>fab_users\<close> by
  exactly one in \<open>u32\<close> arithmetic and changes nothing else: the working mode
  \<open>fab_port_id\<close>, the feature id and the message log are the same, and the register
  window is the same, with no access added to its trace. Whenever a user was counted
  (\<open>fab_users\<close> not zero) the count read as a number goes down by one.
\<close>

theorem fabric_event_destroy_frame:
  "fabric_event_destroy priv event port_id dat = priv\<lparr>fab_users := fab_users priv - 1\<rparr>
   \<and> fab_port_id (fabric_event_destroy priv event port_id dat) = fab_port_id priv
   \<and> ioaddr (fabric_event_destroy priv event port_id dat) = ioaddr priv
   \<and> trace (ioaddr (fabric_event_destroy priv event port_id dat)) = trace (ioaddr priv)
   \<and> (fab_users priv \<noteq> 0 \<longrightarrow>
        unat (fab_users (fabric_event_destroy priv event port_id dat)) + 1
          = unat (fab_users priv))"
proof -
  have "fab_users priv \<noteq> 0 \<Longrightarrow> unat (fab_users priv - 1) + 1 = unat (fab_users priv)"
    by (simp add: unat_minus_one unat_gt_0 [symmetric] Suc_leI)
  then show ?thesis
    by (simp add: fabric_event_destroy_def)
qed

theorem fabric_event_destroy_frame_witness:
  "fabric_event_destroy
     \<lparr>ioaddr = quiet_io,
      feature_id = 0, fab_users = 2, fab_port_id = 0xff, dev_errs = []\<rparr> 0 0xff 0
   = \<lparr>ioaddr = quiet_io,
      feature_id = 0, fab_users = 1, fab_port_id = 0xff, dev_errs = []\<rparr>
   \<and> (2::u32) \<noteq> 0
   \<and> unat (fab_users (fabric_event_destroy
        \<lparr>ioaddr = quiet_io,
         feature_id = 0, fab_users = 2, fab_port_id = 0xff, dev_errs = []\<rparr> 0 0xff 0)) + 1
      = unat (2::u32)"
  using fabric_event_destroy_frame
    [of "\<lparr>ioaddr = quiet_io,
          feature_id = 0, fab_users = 2, fab_port_id = 0xff, dev_errs = []\<rparr>" 0 "0xff" 0]
  by simp

subsection \<open>Polling\<close>

lemma poll_first:
  "cond (fst (readq io addr)) \<Longrightarrow>
   readq_poll_timeout_atomic n io addr cond = (OK, fst (readq io addr), snd (readq io addr))"
  by (cases n) (simp_all add: split_beta)

lemma poll_ok_iff:
  "fst (readq_poll_timeout_atomic n io addr cond) = OK \<longleftrightarrow>
   (\<exists>k < n + 2. cond (nth_read io addr k))"
proof (induction n arbitrary: io)
  case 0
  have "(\<exists>k < Suc (Suc 0). cond (nth_read io addr k)) \<longleftrightarrow>
        cond (nth_read io addr 0) \<or> cond (nth_read io addr (Suc 0))"
    by (auto simp: less_Suc_eq)
  then show ?case
    by (auto simp add: split_beta)
next
  case (Suc n)
  have "(\<exists>k < Suc n + 2. cond (nth_read io addr k)) \<longleftrightarrow>
        cond (nth_read io addr 0) \<or> (\<exists>k < n + 2. cond (nth_read io addr (Suc k)))"
  proof
    assume "\<exists>k < Suc n + 2. cond (nth_read io addr k)"
    then obtain k where k: "k < Suc n + 2" "cond (nth_read io addr k)"
      by blast
    then show "cond (nth_read io addr 0) \<or> (\<exists>k < n + 2. cond (nth_read io addr (Suc k)))"
      by (cases k) auto
  next
    assume "cond (nth_read io addr 0) \<or> (\<exists>k < n + 2. cond (nth_read io addr (Suc k)))"
    then show "\<exists>k < Suc n + 2. cond (nth_read io addr k)"
    proof
      assume "cond (nth_read io addr 0)"
      then show ?thesis by (intro exI [of _ 0]) simp
    next
      assume "\<exists>k < n + 2. cond (nth_read io addr (Suc k))"
      then obtain k where "k < n + 2" "cond (nth_read io addr (Suc k))"
        by blast
      then show ?thesis by (intro exI [of _ "Suc k"]) simp
    qed
  qed
  then show ?case
    using Suc.IH [of "snd (readq io addr)"]
    by (simp add: split_beta)
qed

lemma poll_result_cond:
  "readq_poll_timeout_atomic n io addr cond = (r, v, io') \<Longrightarrow> (r = OK) = cond v"
  by (induction n arbitrary: io) (auto simp: split_beta split: if_splits)

lemma poll_result_cases:
  "fst (readq_poll_timeout_atomic n io addr cond) = OK
   \<or> fst (readq_poll_timeout_atomic n io addr cond) = Err ETIMEDOUT"
  by (induction n arbitrary: io) (auto simp: split_beta split: if_splits)

subsection \<open>Counter sessions\<close>

lemma FAB_CNTR_EVNT_val: "FAB_CNTR_EVNT = push_bit 60 (mask 4)"
  unfolding FAB_CNTR_EVNT_def GENMASK_ULL_def by code_simp

lemma bf_shf_CNTR_EVNT: "bf_shf (push_bit 60 (mask 4)) = 60"
  unfolding bf_shf_def by code_simp

lemma FAB_CNTR_EVNT_CNTR_val: "FAB_CNTR_EVNT_CNTR = mask 60"
  unfolding FAB_CNTR_EVNT_CNTR_def GENMASK_ULL_def by code_simp

lemma bf_shf_mask60: "bf_shf (mask 60) = 0"
  unfolding bf_shf_def by code_simp

lemma FIELD_GET_FAB_CNTR_EVNT_CNTR: "FIELD_GET FAB_CNTR_EVNT_CNTR v = take_bit 60 v"
  by (simp add: FIELD_GET_def FAB_CNTR_EVNT_CNTR_val bf_shf_mask60 take_bit_eq_mask)

lemma FIELD_GET_FAB_CNTR_EVNT: "FIELD_GET FAB_CNTR_EVNT v = drop_bit 60 v"
  unfolding FIELD_GET_def FAB_CNTR_EVNT_val bf_shf_CNTR_EVNT
  by (intro bit_eqI) (auto simp add: bit_simps dest: bit_imp_le_length)

lemma get_event_ops_fabric: "get_event_ops 2 = fme_perf_fab_ops"
  by (simp add: get_event_ops_def fme_perf_event_groups_def)

lemma fabric_read_event_counter_ok:
  assumes "readq (ioaddr priv) FAB_CTRL = (v0, io1)"
    and "readq_poll_timeout_atomic n
           (writeq ((v0 AND NOT FAB_CTRL_EVNT) OR FIELD_PREP FAB_CTRL_EVNT (ucast event))
              FAB_CTRL io1)
           FAB_CNTR (\<lambda>v. FIELD_GET FAB_CNTR_EVNT v = ucast event) = (OK, v3, io3)"
    and "readq io3 FAB_CNTR = (v4, io4)"
  shows "fabric_read_event_counter n priv event port_id dat =
           (FIELD_GET FAB_CNTR_EVNT_CNTR v4, priv\<lparr>ioaddr := io4\<rparr>)"
  using assms by (simp add: fabric_read_event_counter_def)

lemma wrapped_read:
  "fst (fabric_read_event_counter n wrapped_priv 0 p d) = 3"
proof -
  define io1 where "io1 = snd (readq (ioaddr wrapped_priv) FAB_CTRL)"
  define io2 where "io2 = writeq ((0 AND NOT FAB_CTRL_EVNT) OR FIELD_PREP FAB_CTRL_EVNT (ucast (0::u32))) FAB_CTRL io1"
  define io3 where "io3 = snd (readq io2 FAB_CNTR)"
  have rd: "readq (ioaddr wrapped_priv) FAB_CTRL = (0, io1)"
    by (simp add: io1_def readq_def wrapped_priv_def idle_priv_def quiet_io_def
        FAB_CNTR_def FAB_CTRL_def)
  have l: "latched io2 FAB_CNTR = 3" "incoming io2 FAB_CNTR = []"
    by (simp_all add: io2_def io1_def writeq_def readq_def wrapped_priv_def idle_priv_def
        quiet_io_def FAB_CNTR_def FAB_CTRL_def)
  have r1: "fst (readq io2 FAB_CNTR) = 3" "latched io3 FAB_CNTR = 3" "incoming io3 FAB_CNTR = []"
    using l by (simp_all add: readq_def io3_def)
  have r2: "fst (readq io3 FAB_CNTR) = 3"
    using r1 by (simp add: readq_def)
  have c: "FIELD_GET FAB_CNTR_EVNT (fst (readq io2 FAB_CNTR)) = ucast (0::u32)"
    by (simp add: r1 FIELD_GET_FAB_CNTR_EVNT drop_bit_eq_div)
  have pl: "readq_poll_timeout_atomic n io2 FAB_CNTR (\<lambda>v. FIELD_GET FAB_CNTR_EVNT v = ucast (0::u32))
      = (OK, fst (readq io2 FAB_CNTR), io3)"
    using poll_first [of "\<lambda>v. FIELD_GET FAB_CNTR_EVNT v = ucast (0::u32)" io2 FAB_CNTR n, OF c]
    by (simp add: io3_def)
  have "fabric_read_event_counter n wrapped_priv 0 p d =
          (FIELD_GET FAB_CNTR_EVNT_CNTR (fst (readq io3 FAB_CNTR)),
           wrapped_priv\<lparr>ioaddr := snd (readq io3 FAB_CNTR)\<rparr>)"
    by (rule fabric_read_event_counter_ok [OF rd pl [unfolded io2_def]]) simp
  then show ?thesis
    by (simp add: r2 FIELD_GET_FAB_CNTR_EVNT_CNTR)
qed

lemma fme_perf_event_update_eq:
  assumes "(ucast (event_base (hw event)) :: u32) \<le> FME_EVTYPE_MAX"
    and "read_counter (get_event_ops (ucast (event_base (hw event)))) n priv (idx (hw event))
           (ucast (config_base (hw event))) (config (hw event)) = (Y, priv1)"
  shows "fme_perf_event_update n priv event =
           Some (event\<lparr>count := count event + (Y - prev_count (hw event))\<rparr>, priv1)"
  using assms by (simp add: fme_perf_event_update_def not_less [symmetric])

lemma fme_perf_event_start_eq:
  assumes "(ucast (event_base (hw event)) :: u32) \<le> FME_EVTYPE_MAX"
    and "read_counter (get_event_ops (ucast (event_base (hw event)))) n priv (idx (hw event))
           (ucast (config_base (hw event))) (config (hw event)) = (Y, priv1)"
  shows "fme_perf_event_start n priv event flags =
           Some (event\<lparr>hw := (hw event)\<lparr>prev_count := Y\<rparr>\<rparr>, priv1)"
  using assms by (simp add: fme_perf_event_start_def not_less [symmetric])

lemma fab_session_range: "(ucast (event_base (hw (fab_session p a))) :: u32) \<le> FME_EVTYPE_MAX"
  by (simp add: fab_session_def FME_EVTYPE_MAX_def FME_EVTYPE_VTD_SIP_def)

lemma fab_session_read:
  "read_counter (get_event_ops (ucast (event_base (hw (fab_session p a))))) n wrapped_priv
     (idx (hw (fab_session p a))) (ucast (config_base (hw (fab_session p a))))
     (config (hw (fab_session p a)))
   = (3, snd (fabric_read_event_counter n wrapped_priv 0 0xff 0))"
  using wrapped_read [of n "0xff" 0]
  by (simp add: fab_session_def get_event_ops_fabric fme_perf_fab_ops_def prod_eq_iff)

text \<open>
  C2 (as amended). For every session in \<open>read\<close> or \<open>stop\<close>, with snapshot \<open>X\<close> and the
  driver read returning \<open>Y\<close>, both operations return, and the delta added to the
  accumulated count is \<open>Y - X\<close> in plain 64-bit unsigned arithmetic, that is
  \<open>(Y - X) mod 2^64\<close>: nothing is masked to the counter's field width. Without
  wrap-around (\<open>X \<le> Y\<close>) the delta is the difference of the two values.
\<close>

theorem fme_perf_event_update_delta:
  assumes "(ucast (event_base (hw event)) :: u32) \<le> FME_EVTYPE_MAX"
    and "read_counter (get_event_ops (ucast (event_base (hw event)))) n priv (idx (hw event))
           (ucast (config_base (hw event))) (config (hw event)) = (Y, priv1)"
    and "prev_count (hw event) = X"
  shows "fme_perf_event_read n priv event = Some (event\<lparr>count := count event + (Y - X)\<rparr>, priv1)
       \<and> fme_perf_event_stop n priv event flags
           = Some (event\<lparr>count := count event + (Y - X)\<rparr>, priv1)
       \<and> uint (Y - X) = (uint Y - uint X) mod 2 ^ 64
       \<and> (X \<le> Y \<longrightarrow> unat (Y - X) = unat Y - unat X)"
  using fme_perf_event_update_eq [OF assms(1,2)] assms(3)
  by (simp add: fme_perf_event_read_def fme_perf_event_stop_def uint_word_ariths unat_sub)

theorem fme_perf_event_update_delta_witness:
  "(ucast (event_base (hw (fab_session 1 10))) :: u32) \<le> FME_EVTYPE_MAX
   \<and> prev_count (hw (fab_session 1 10)) = 1
   \<and> fme_perf_event_read 30 wrapped_priv (fab_session 1 10)
       = Some (fab_session 1 12, snd (fabric_read_event_counter 30 wrapped_priv 0 0xff 0))
   \<and> fme_perf_event_stop 30 wrapped_priv (fab_session 1 10) 0
       = Some (fab_session 1 12, snd (fabric_read_event_counter 30 wrapped_priv 0 0xff 0))
   \<and> (1 :: u64) \<le> 3 \<and> unat (3 - 1 :: u64) = 2"
proof -
  have p: "prev_count (hw (fab_session 1 10)) = 1"
    by (simp add: fab_session_def)
  have e: "(fab_session 1 10)\<lparr>count := count (fab_session 1 10) + 2\<rparr> = fab_session 1 12"
    by (simp add: fab_session_def)
  show ?thesis
    using fme_perf_event_update_delta [where event = "fab_session 1 10" and n = 30
        and priv = wrapped_priv and flags = 0, OF fab_session_range fab_session_read p]
      fab_session_range [of 1 10] p
    by (simp add: e)
qed

text \<open>
  The claim as stated fails when the counter has wrapped: a fabric session (60-bit
  counter field) with snapshot 5 reads 3; the code adds \<open>2^64 - 2\<close>, which is neither
  \<open>(3 - 5) mod 2^60\<close> nor \<open>(3 - 5) mod 2^48\<close>.
\<close>

theorem fme_perf_event_update_wrap_counterexample:
  "prev_count (hw (fab_session 5 0)) = 5
   \<and> fst (fabric_read_event_counter 30 wrapped_priv 0 0xff 0) = 3
   \<and> map_option (count \<circ> fst) (fme_perf_event_read 30 wrapped_priv (fab_session 5 0))
       = Some 0xFFFFFFFFFFFFFFFE
   \<and> (0xFFFFFFFFFFFFFFFE :: u64) \<noteq> word_of_int ((3 - 5) mod 2 ^ 60)
   \<and> (0xFFFFFFFFFFFFFFFE :: u64) \<noteq> word_of_int ((3 - 5) mod 2 ^ 48)"
  using fme_perf_event_update_eq [where event = "fab_session 5 0" and n = 30
      and priv = wrapped_priv, OF fab_session_range fab_session_read]
    wrapped_read [of 30 "0xff" 0]
  by (simp add: fme_perf_event_read_def fab_session_def)

text \<open>
  C3 (as amended). After every \<open>read\<close> or \<open>stop\<close> on a session the delta has been added
  to the accumulated count and the snapshot \<open>prev_count\<close> is what it was before the
  operation; only \<open>start\<close> sets the snapshot to the counter value just read.
\<close>

theorem fme_perf_event_update_keeps_snapshot:
  assumes "(ucast (event_base (hw event)) :: u32) \<le> FME_EVTYPE_MAX"
    and "read_counter (get_event_ops (ucast (event_base (hw event)))) n priv (idx (hw event))
           (ucast (config_base (hw event))) (config (hw event)) = (Y, priv1)"
  shows "map_option (prev_count \<circ> hw \<circ> fst) (fme_perf_event_read n priv event)
           = Some (prev_count (hw event))
       \<and> map_option (prev_count \<circ> hw \<circ> fst) (fme_perf_event_stop n priv event flags)
           = Some (prev_count (hw event))
       \<and> map_option (count \<circ> fst) (fme_perf_event_read n priv event)
           = Some (count event + (Y - prev_count (hw event)))
       \<and> map_option (count \<circ> fst) (fme_perf_event_stop n priv event flags)
           = Some (count event + (Y - prev_count (hw event)))
       \<and> map_option (prev_count \<circ> hw \<circ> fst) (fme_perf_event_start n priv event flags)
           = Some Y"
  using fme_perf_event_update_eq [OF assms] fme_perf_event_start_eq [OF assms]
  by (simp add: fme_perf_event_read_def fme_perf_event_stop_def)

theorem fme_perf_event_update_keeps_snapshot_witness:
  "(ucast (event_base (hw (fab_session 1 10))) :: u32) \<le> FME_EVTYPE_MAX
   \<and> map_option (prev_count \<circ> hw \<circ> fst) (fme_perf_event_read 30 wrapped_priv (fab_session 1 10))
       = Some 1
   \<and> map_option (count \<circ> fst) (fme_perf_event_stop 30 wrapped_priv (fab_session 1 10) 0)
       = Some 12
   \<and> map_option (prev_count \<circ> hw \<circ> fst) (fme_perf_event_start 30 wrapped_priv (fab_session 1 10) 0)
       = Some 3"
  using fme_perf_event_update_keeps_snapshot [where event = "fab_session 1 10" and n = 30
      and priv = wrapped_priv and flags = 0, OF fab_session_range fab_session_read]
    fab_session_range [of 1 10]
  by (simp add: fab_session_def)

text \<open>
  The claim as stated fails: a session with snapshot 5 reads 3 from the driver, and after
  \<open>read\<close> and after \<open>stop\<close> the snapshot is still 5, not 3.
\<close>

theorem fme_perf_event_update_snapshot_counterexample:
  "fst (fabric_read_event_counter 30 wrapped_priv 0 0xff 0) = 3
   \<and> map_option (prev_count \<circ> hw \<circ> fst) (fme_perf_event_read 30 wrapped_priv (fab_session 5 0))
       = Some 5
   \<and> map_option (prev_count \<circ> hw \<circ> fst) (fme_perf_event_stop 30 wrapped_priv (fab_session 5 0) 0)
       = Some 5
   \<and> (5 :: u64) \<noteq> 3"
  using fme_perf_event_update_eq [where event = "fab_session 5 0" and n = 30
      and priv = wrapped_priv, OF fab_session_range fab_session_read]
    wrapped_read [of 30 "0xff" 0]
  by (simp add: fme_perf_event_read_def fme_perf_event_stop_def fab_session_def)

subsection \<open>Reading a cache counter\<close>

lemma CACHE_CNTR_EVNT_val: "CACHE_CNTR_EVNT = push_bit 60 (mask 4)"
  unfolding CACHE_CNTR_EVNT_def GENMASK_ULL_def by code_simp

lemma CACHE_CNTR_EVNT_CNTR_val: "CACHE_CNTR_EVNT_CNTR = mask 48"
  unfolding CACHE_CNTR_EVNT_CNTR_def GENMASK_ULL_def by code_simp

lemma bf_shf_mask48: "bf_shf (mask 48) = 0"
  unfolding bf_shf_def by code_simp

lemma FIELD_GET_CACHE_CNTR_EVNT_CNTR: "FIELD_GET CACHE_CNTR_EVNT_CNTR v = take_bit 48 v"
  by (simp add: FIELD_GET_def CACHE_CNTR_EVNT_CNTR_val bf_shf_mask48 take_bit_eq_mask)

lemma FIELD_GET_CACHE_CNTR_EVNT: "FIELD_GET CACHE_CNTR_EVNT v = drop_bit 60 v"
  unfolding FIELD_GET_def CACHE_CNTR_EVNT_val bf_shf_CNTR_EVNT
  by (intro bit_eqI) (auto simp add: bit_simps dest: bit_imp_le_length)

lemma unat_take_bit48_sum:
  fixes a b :: u64
  shows "unat (take_bit 48 a + take_bit 48 b) = unat a mod 2 ^ 48 + unat b mod 2 ^ 48"
proof -
  have a: "unat (take_bit 48 a) = unat a mod 2 ^ 48" and b: "unat (take_bit 48 b) = unat b mod 2 ^ 48"
    by (simp_all add: take_bit_eq_mod unat_mod)
  have "unat a mod 2 ^ 48 < 2 ^ 48" "unat b mod 2 ^ 48 < 2 ^ 48"
    by simp_all
  then have "unat (take_bit 48 a) + unat (take_bit 48 b) < 2 ^ 64"
    unfolding a b by simp
  then have "unat (take_bit 48 a + take_bit 48 b) = unat (take_bit 48 a) + unat (take_bit 48 b)"
    by (simp add: unat_add_lem [where 'a = 64, simplified])
  then show ?thesis
    by (simp add: a b)
qed

lemma cache_selected_regs:
  "latched (cache_selected event dat) CACHE_CNTR0 = 7"
  "latched (cache_selected event dat) CACHE_CNTR1 = 5"
  "incoming (cache_selected event dat) = (\<lambda>_. [])"
  by (simp_all add: cache_selected_def cache_priv_def idle_priv_def quiet_io_def readq_def
      writeq_def CACHE_CNTR0_def CACHE_CNTR1_def CACHE_CTRL_def)

lemma readq_quiet:
  "incoming io = (\<lambda>_. []) \<Longrightarrow>
   fst (readq io off) = latched io off \<and> latched (snd (readq io off)) = latched io
   \<and> incoming (snd (readq io off)) = (\<lambda>_. [])"
  by (simp add: readq_def)

text \<open>
  C7. \<open>cache_read_event_counter\<close> selects the event in \<open>CACHE_CTRL\<close> and polls
  \<open>CACHE_CNTR0\<close>. The poll succeeds exactly when one of the at most \<open>n + 2\<close> values read
  within the time bound carries the requested event code in its tag field; otherwise it
  times out. On success the function reads both bank registers and returns the sum of
  their low 48 bits (the sum does not overflow 64 bits) and logs nothing; on timeout it
  returns 0 and logs one error message.
\<close>

theorem cache_read_event_counter_spec:
  assumes "readq (ioaddr priv) CACHE_CTRL = (v0, io1)"
    and "io2 = writeq (((v0 AND NOT (CACHE_CHANNEL_SEL OR CACHE_CTRL_EVNT))
                          OR FIELD_PREP CACHE_CHANNEL_SEL (ucast (ucast dat :: u8)))
                        OR FIELD_PREP CACHE_CTRL_EVNT (ucast event)) CACHE_CTRL io1"
    and "readq_poll_timeout_atomic n io2 CACHE_CNTR0
           (\<lambda>v. FIELD_GET CACHE_CNTR_EVNT v = ucast event) = (r, v4, io3)"
    and "readq io3 CACHE_CNTR0 = (b0, io4)"
    and "readq io4 CACHE_CNTR1 = (b1, io5)"
  shows "(r = OK \<longleftrightarrow>
            (\<exists>k < n + 2. FIELD_GET CACHE_CNTR_EVNT (nth_read io2 CACHE_CNTR0 k) = ucast event))
       \<and> (r = OK \<or> r = Err ETIMEDOUT)
       \<and> (r = OK \<longrightarrow>
             cache_read_event_counter n priv event port_id dat
               = (FIELD_GET CACHE_CNTR_EVNT_CNTR b0 + FIELD_GET CACHE_CNTR_EVNT_CNTR b1,
                  priv\<lparr>ioaddr := io5\<rparr>)
           \<and> unat (fst (cache_read_event_counter n priv event port_id dat))
               = unat b0 mod 2 ^ 48 + unat b1 mod 2 ^ 48)
       \<and> (r = Err ETIMEDOUT \<longrightarrow>
             cache_read_event_counter n priv event port_id dat
               = (0, priv\<lparr>ioaddr := io3,
                          dev_errs := dev_errs priv @
                            [''timeout, unmatched cache event code in counter register.'']\<rparr>))"
proof -
  have ok: "(r = OK) = (\<exists>k < n + 2. FIELD_GET CACHE_CNTR_EVNT (nth_read io2 CACHE_CNTR0 k) = ucast event)"
    using poll_ok_iff [of n io2 CACHE_CNTR0 "\<lambda>v. FIELD_GET CACHE_CNTR_EVNT v = ucast event"] assms(3)
    by simp
  have cs: "r = OK \<or> r = Err ETIMEDOUT"
    using poll_result_cases [of n io2 CACHE_CNTR0 "\<lambda>v. FIELD_GET CACHE_CNTR_EVNT v = ucast event"] assms(3)
    by simp
  have succ: "cache_read_event_counter n priv event port_id dat
               = (FIELD_GET CACHE_CNTR_EVNT_CNTR b0 + FIELD_GET CACHE_CNTR_EVNT_CNTR b1,
                  priv\<lparr>ioaddr := io5\<rparr>)" if "r = OK"
    using that assms by (simp add: cache_read_event_counter_def)
  have fail: "cache_read_event_counter n priv event port_id dat
               = (0, priv\<lparr>ioaddr := io3,
                          dev_errs := dev_errs priv @
                            [''timeout, unmatched cache event code in counter register.'']\<rparr>)"
    if "r = Err ETIMEDOUT"
    using that assms by (simp add: cache_read_event_counter_def)
  show ?thesis
    using ok cs succ fail
    by (auto simp: FIELD_GET_CACHE_CNTR_EVNT_CNTR unat_take_bit48_sum)
qed

theorem cache_read_event_counter_spec_witness:
  "fst (cache_read_event_counter 30 cache_priv 0 0xff 0) = 12
   \<and> dev_errs (snd (cache_read_event_counter 30 cache_priv 0 0xff 0)) = []
   \<and> (\<exists>k < 30 + 2. FIELD_GET CACHE_CNTR_EVNT (nth_read (cache_selected 0 0) CACHE_CNTR0 k)
                       = ucast (0 :: u32))
   \<and> \<not> (\<exists>k < Suc 0 + 2. FIELD_GET CACHE_CNTR_EVNT (nth_read (cache_selected 1 1) CACHE_CNTR0 k)
                       = ucast (1 :: u32))
   \<and> fst (cache_read_event_counter (Suc 0) cache_priv 1 0xff 1) = 0
   \<and> dev_errs (snd (cache_read_event_counter (Suc 0) cache_priv 1 0xff 1))
       = [''timeout, unmatched cache event code in counter register.'']"
proof -
  let ?c0 = "\<lambda>v. FIELD_GET CACHE_CNTR_EVNT v = ucast (0 :: u32)"
  let ?c1 = "\<lambda>v. FIELD_GET CACHE_CNTR_EVNT v = ucast (1 :: u32)"
  let ?io2 = "cache_selected 0 0"
  let ?io3 = "snd (readq ?io2 CACHE_CNTR0)"
  let ?io4 = "snd (readq ?io3 CACHE_CNTR0)"
  let ?jo2 = "cache_selected 1 1"
  let ?P = "readq_poll_timeout_atomic (Suc 0) ?jo2 CACHE_CNTR0 ?c1"
  have rd: "readq (ioaddr cache_priv) CACHE_CTRL =
      (fst (readq (ioaddr cache_priv) CACHE_CTRL), snd (readq (ioaddr cache_priv) CACHE_CTRL))"
    by simp
  have q2: "fst (readq ?io2 CACHE_CNTR0) = 7" "incoming ?io3 = (\<lambda>_. [])" "latched ?io3 = latched ?io2"
    using readq_quiet [OF cache_selected_regs(3), of 0 0 CACHE_CNTR0]
    by (simp_all add: cache_selected_regs)
  have q3: "fst (readq ?io3 CACHE_CNTR0) = 7" "incoming ?io4 = (\<lambda>_. [])" "latched ?io4 = latched ?io2"
    using readq_quiet [OF q2(2), of CACHE_CNTR0] q2
    by (simp_all add: cache_selected_regs)
  have q4: "fst (readq ?io4 CACHE_CNTR1) = 5"
    using readq_quiet [OF q3(2), of CACHE_CNTR1] q3
    by (simp add: cache_selected_regs)
  have c: "?c0 (fst (readq ?io2 CACHE_CNTR0))"
    by (simp add: q2 FIELD_GET_CACHE_CNTR_EVNT drop_bit_eq_div)
  have pl: "readq_poll_timeout_atomic 30 ?io2 CACHE_CNTR0 ?c0 = (OK, fst (readq ?io2 CACHE_CNTR0), ?io3)"
    using poll_first [of ?c0 ?io2 CACHE_CNTR0 30, OF c] .
  note ok = cache_read_event_counter_spec [where priv = cache_priv and event = 0 and dat = 0
      and n = 30 and port_id = "0xff", OF rd cache_selected_def pl prod.collapse [symmetric]
      prod.collapse [symmetric]]
  have n1: "\<not> ?c1 (7 :: u64)"
    by (simp add: FIELD_GET_CACHE_CNTR_EVNT drop_bit_eq_div)
  have j: "\<And>io. incoming io = (\<lambda>_. []) \<Longrightarrow> latched io CACHE_CNTR0 = 7 \<Longrightarrow>
      \<not> ?c1 (fst (readq io CACHE_CNTR0)) \<and> incoming (snd (readq io CACHE_CNTR0)) = (\<lambda>_. [])
      \<and> latched (snd (readq io CACHE_CNTR0)) CACHE_CNTR0 = 7"
    using n1 by (simp add: readq_def)
  have j1: "\<not> ?c1 (fst (readq ?jo2 CACHE_CNTR0))"
    and j2: "\<not> ?c1 (fst (readq (snd (readq ?jo2 CACHE_CNTR0)) CACHE_CNTR0))"
    and j3: "\<not> ?c1 (fst (readq (snd (readq (snd (readq ?jo2 CACHE_CNTR0)) CACHE_CNTR0)) CACHE_CNTR0))"
    using j [OF cache_selected_regs(3) cache_selected_regs(1), of 1 1]
      j [of "snd (readq ?jo2 CACHE_CNTR0)"]
      j [of "snd (readq (snd (readq ?jo2 CACHE_CNTR0)) CACHE_CNTR0)"]
    by simp_all
  have pf: "fst ?P = Err ETIMEDOUT"
    using j1 j2 j3 by (simp add: split_beta)
  have pc: "?P = (fst ?P, fst (snd ?P), snd (snd ?P))"
    by simp
  note to = cache_read_event_counter_spec [where priv = cache_priv and event = 1 and dat = 1
      and n = "Suc 0" and port_id = "0xff", OF rd cache_selected_def pc prod.collapse [symmetric]
      prod.collapse [symmetric]]
  have de: "dev_errs cache_priv = []"
    by (simp add: cache_priv_def idle_priv_def)
  show ?thesis
    using ok to pf q3 q4 de
    by (simp add: FIELD_GET_CACHE_CNTR_EVNT_CNTR)
qed

subsection \<open>The event catalog and the resolver\<close>

lemma scan_ev_attrs_distinct:
  "distinct (map (\<lambda>a. (event_id a, is_port_event a)) as) \<Longrightarrow> e \<in> set as \<Longrightarrow>
   scan_ev_attrs (event_id e) (is_port_event e) as = Some e"
  by (induction as) (auto simp: image_iff)


lemmas FME_EVENT_defs =
  FME_EVENT_BASIC_def FME_EVENT_CACHE_def FME_EVENT_FABRIC_def FME_EVENT_FABRIC_PORT_def
  FME_EVENT_VTD_PORT_def FME_EVENT_VTD_SIP_def

lemmas FME_EVTYPE_defs =
  FME_EVTYPE_BASIC_def FME_EVTYPE_CACHE_def FME_EVTYPE_FABRIC_def FME_EVTYPE_VTD_def
  FME_EVTYPE_VTD_SIP_def FME_EVTYPE_MAX_def

lemmas EVNT_defs =
  BASIC_EVNT_CLK_def
  CACHE_EVNT_RD_HIT_def CACHE_EVNT_WR_HIT_def CACHE_EVNT_RD_MISS_def CACHE_EVNT_WR_MISS_def
  CACHE_EVNT_HOLD_REQ_def CACHE_EVNT_DATA_WR_PORT_CONTEN_def CACHE_EVNT_TAG_WR_PORT_CONTEN_def
  CACHE_EVNT_TX_REQ_STALL_def CACHE_EVNT_RX_REQ_STALL_def CACHE_EVNT_EVICTIONS_def
  FAB_EVNT_PCIE0_RD_def FAB_EVNT_PCIE0_WR_def FAB_EVNT_PCIE1_RD_def FAB_EVNT_PCIE1_WR_def
  FAB_EVNT_UPI_RD_def FAB_EVNT_UPI_WR_def FAB_EVNT_MMIO_RD_def FAB_EVNT_MMIO_WR_def
  VTD_EVNT_AFU_MEM_RD_TRANS_def VTD_EVNT_AFU_MEM_WR_TRANS_def VTD_EVNT_AFU_DEVTLB_RD_HIT_def
  VTD_EVNT_AFU_DEVTLB_WR_HIT_def VTD_EVNT_DEVTLB_4K_FILL_def VTD_EVNT_DEVTLB_2M_FILL_def
  VTD_EVNT_DEVTLB_1G_FILL_def
  VTD_SIP_EVNT_IOTLB_4K_HIT_def VTD_SIP_EVNT_IOTLB_2M_HIT_def VTD_SIP_EVNT_IOTLB_1G_HIT_def
  VTD_SIP_EVNT_SLPWC_L3_HIT_def VTD_SIP_EVNT_SLPWC_L4_HIT_def VTD_SIP_EVNT_RCC_HIT_def
  VTD_SIP_EVNT_IOTLB_4K_MISS_def VTD_SIP_EVNT_IOTLB_2M_MISS_def VTD_SIP_EVNT_IOTLB_1G_MISS_def
  VTD_SIP_EVNT_SLPWC_L3_MISS_def VTD_SIP_EVNT_SLPWC_L4_MISS_def VTD_SIP_EVNT_RCC_MISS_def

lemma group_ok_0: "group_ok 0"
  by (simp add: group_ok_def fme_perf_event_groups_def fme_perf_basic_events_def
      FME_EVENT_defs FME_EVTYPE_defs EVNT_defs)

lemma group_ok_1: "group_ok 1"
  by (simp add: group_ok_def fme_perf_event_groups_def fme_perf_cache_events_def
      FME_EVENT_defs FME_EVTYPE_defs EVNT_defs)

lemma group_ok_2: "group_ok 2"
  by (simp add: group_ok_def fme_perf_event_groups_def fme_perf_fab_events_def
      FME_EVENT_defs FME_EVTYPE_defs EVNT_defs)

lemma group_ok_3: "group_ok 3"
  by (simp add: group_ok_def fme_perf_event_groups_def fme_perf_vtd_events_def
      FME_EVENT_defs FME_EVTYPE_defs EVNT_defs)

lemma group_ok_4: "group_ok 4"
  by (simp add: group_ok_def fme_perf_event_groups_def fme_perf_vtd_sip_events_def
      FME_EVENT_defs FME_EVTYPE_defs EVNT_defs)

lemma groups_length: "length fme_perf_event_groups = 5"
  by (simp add: fme_perf_event_groups_def)

lemma group_ok_all: "i < 5 \<Longrightarrow> group_ok i"
proof -
  assume "i < 5"
  then have "i = 0 \<or> i = 1 \<or> i = 2 \<or> i = 3 \<or> i = 4"
    by arith
  then show ?thesis
    using group_ok_0 group_ok_1 group_ok_2 group_ok_3 group_ok_4 by auto
qed


text \<open>
  C5. For every descriptor of the catalog (every entry \<open>e\<close> of every event group) and
  every port that is valid for its scope (the aggregate port \<open>0xff\<close> for a global entry,
  a port below \<open>PERF_MAX_PORT_NUM\<close> for a per-port entry), \<open>get_event_attr\<close> called with
  the entry's id and type and that port returns exactly \<open>e\<close>. Within each group no two
  entries share both id and scope.
\<close>

theorem get_event_attr_catalog:
  assumes "g \<in> set fme_perf_event_groups" and "e \<in> set (ev_attrs g)"
    and "if is_port_event e then port_id < PERF_MAX_PORT_NUM else port_id = FME_PORTID_ROOT"
  shows "get_event_attr (event_id e) (event_type e) port_id = Some e
       \<and> distinct (map (\<lambda>a. (event_id a, is_port_event a)) (ev_attrs g))"
proof -
  from assms(1) obtain i where i: "i < 5" "g = fme_perf_event_groups ! i"
    by (auto simp: in_set_conv_nth groups_length)
  have ok: "group_ok i"
    using i(1) by (rule group_ok_all)
  have ty: "event_type e = of_nat i"
    using ok assms(2) i(2) by (auto simp: group_ok_def list_all_iff)
  have un: "unat (of_nat i :: u32) = i"
    using i(1) by (simp add: unat_of_nat)
  have le: "\<not> (of_nat i :: u32) > FME_EVTYPE_MAX"
    using i(1) un by (simp add: FME_EVTYPE_defs word_less_nat_alt)
  have pe: "(port_id \<noteq> FME_PORTID_ROOT) = is_port_event e"
    using assms(3) by (auto simp: PERF_MAX_PORT_NUM_def FME_PORTID_ROOT_def split: if_splits)
  have "scan_ev_attrs (event_id e) (is_port_event e) (ev_attrs g) = Some e"
    using ok assms(2) i(2) by (intro scan_ev_attrs_distinct) (auto simp: group_ok_def)
  then show ?thesis
    using ok i(2) by (simp add: get_event_attr_def ty un le pe group_ok_def)
qed

theorem get_event_attr_catalog_witness:
  "\<lparr>ev_attrs = fme_perf_fab_events, ops = fme_perf_fab_ops\<rparr> \<in> set fme_perf_event_groups
   \<and> FME_EVENT_FABRIC_PORT ''mmio_write'' FAB_EVNT_MMIO_WR \<in> set fme_perf_fab_events
   \<and> FME_EVENT_FABRIC ''mmio_write'' FAB_EVNT_MMIO_WR \<in> set fme_perf_fab_events
   \<and> (0 :: u32) < PERF_MAX_PORT_NUM
   \<and> get_event_attr 7 2 0 = Some (FME_EVENT_FABRIC_PORT ''mmio_write'' FAB_EVNT_MMIO_WR)
   \<and> get_event_attr 7 2 0xff = Some (FME_EVENT_FABRIC ''mmio_write'' FAB_EVNT_MMIO_WR)"
proof -
  let ?g = "\<lparr>ev_attrs = fme_perf_fab_events, ops = fme_perf_fab_ops\<rparr>"
  have g: "?g \<in> set fme_perf_event_groups"
    by (simp add: fme_perf_event_groups_def)
  have p: "FME_EVENT_FABRIC_PORT ''mmio_write'' FAB_EVNT_MMIO_WR \<in> set (ev_attrs ?g)"
    and q: "FME_EVENT_FABRIC ''mmio_write'' FAB_EVNT_MMIO_WR \<in> set (ev_attrs ?g)"
    by (simp_all add: fme_perf_fab_events_def)
  have pp: "if is_port_event (FME_EVENT_FABRIC_PORT ''mmio_write'' FAB_EVNT_MMIO_WR)
            then (0 :: u32) < PERF_MAX_PORT_NUM else (0 :: u32) = FME_PORTID_ROOT"
    and qq: "if is_port_event (FME_EVENT_FABRIC ''mmio_write'' FAB_EVNT_MMIO_WR)
            then (0xff :: u32) < PERF_MAX_PORT_NUM else (0xff :: u32) = FME_PORTID_ROOT"
    by (simp_all add: FME_EVENT_FABRIC_PORT_def FME_EVENT_FABRIC_def PERF_MAX_PORT_NUM_def
        FME_PORTID_ROOT_def)
  have i: "event_id (FME_EVENT_FABRIC_PORT ''mmio_write'' FAB_EVNT_MMIO_WR) = 7"
    "event_type (FME_EVENT_FABRIC_PORT ''mmio_write'' FAB_EVNT_MMIO_WR) = 2"
    "event_id (FME_EVENT_FABRIC ''mmio_write'' FAB_EVNT_MMIO_WR) = 7"
    "event_type (FME_EVENT_FABRIC ''mmio_write'' FAB_EVNT_MMIO_WR) = 2"
    by (simp_all add: FME_EVENT_FABRIC_PORT_def FME_EVENT_FABRIC_def FAB_EVNT_MMIO_WR_def
        FME_EVTYPE_FABRIC_def)
  show ?thesis
    using get_event_attr_catalog [OF g p pp] get_event_attr_catalog [OF g q qq] g p q
    by (simp add: i PERF_MAX_PORT_NUM_def)
qed

subsection \<open>Opening an event\<close>






text \<open>
  A successful open leaves an event type in \<open>event->hw.event_base\<close>, so that the
  callbacks of a session find their group.
\<close>

lemma get_event_attr_type_range:
  "get_event_attr eid etype port_id = Some e \<Longrightarrow> etype \<le> FME_EVTYPE_MAX"
  by (auto simp: get_event_attr_def Let_def not_less split: if_splits)

lemma ucast_u32_u64_u32: "(ucast (ucast (x :: u32) :: u64) :: u32) = x"
  by (intro bit_eqI) (auto simp add: bit_simps dest: bit_imp_le_length)

lemma fme_perf_event_init_ok_range:
  assumes "fme_perf_event_init priv event = (OK, event1, priv1)"
  shows "(ucast (event_base (hw event1)) :: u32) \<le> FME_EVTYPE_MAX"
  using assms
  by (auto simp: fme_perf_event_init_def Let_def ucast_u32_u64_u32 split_beta
      dest: get_event_attr_type_range split: if_splits option.splits)











text \<open>
  C9 (as amended). Every open request that asks for sampling, or is attached to a task, or
  names no cpu, fails before any register is accessed and before anything is stored in
  the event: with \<open>-EINVAL\<close> when the request is for this pmu (\<open>attr.type\<close> is the pmu's
  type), and with \<open>-ENOENT\<close> otherwise.
\<close>

theorem fme_perf_event_init_rejects:
  assumes "is_sampling_event event \<or> attach_state event AND PERF_ATTACH_TASK \<noteq> 0
           \<or> sint (cpu event) < 0"
  shows "fme_perf_event_init priv event
           = (Err (if attr_type event = pmu_type event then EINVAL else ENOENT), event, priv)
       \<and> trace (ioaddr (snd (snd (fme_perf_event_init priv event)))) = trace (ioaddr priv)"
  using assms by (auto simp: fme_perf_event_init_def)

theorem fme_perf_event_init_rejects_witness:
  "is_sampling_event (sampling_request 8)
   \<and> attr_type (sampling_request 8) = pmu_type (sampling_request 8)
   \<and> fme_perf_event_init idle_priv (sampling_request 8)
       = (Err EINVAL, sampling_request 8, idle_priv)"
proof -
  have s: "is_sampling_event (sampling_request 8)"
    and t: "attr_type (sampling_request 8) = pmu_type (sampling_request 8)"
    by (simp_all add: is_sampling_event_def sampling_request_def)
  show ?thesis
    using fme_perf_event_init_rejects [of "sampling_request 8" idle_priv] s t
    by simp
qed

text \<open>
  The claim as stated fails for a sampling request whose \<open>attr.type\<close> is not the pmu's
  type: the type check comes first and the open fails with \<open>-ENOENT\<close>, not \<open>-EINVAL\<close>.
\<close>

theorem fme_perf_event_init_enoent_counterexample:
  "is_sampling_event (sampling_request 1)
   \<and> fme_perf_event_init idle_priv (sampling_request 1)
       = (Err ENOENT, sampling_request 1, idle_priv)
   \<and> fst (fme_perf_event_init idle_priv (sampling_request 1)) \<noteq> Err EINVAL"
  by (simp add: fme_perf_event_init_def is_sampling_event_def sampling_request_def)

subsection \<open>Device attach\<close>

lemma drop_bit_and_field:
  fixes v :: u64
  shows "drop_bit l (v AND push_bit l (mask k)) = take_bit k (drop_bit l v)"
  by (intro bit_eqI) (auto simp add: bit_simps dest: bit_imp_le_length)

lemma FIELD_GET_FAB_CTRL:
  "FIELD_GET FAB_PORT_FILTER v = take_bit 1 (drop_bit 23 v)"
  "FIELD_GET FAB_PORT_ID v = take_bit 2 (drop_bit 20 v)"
  unfolding FIELD_GET_def FAB_PORT_ID_val FAB_PORT_FILTER_val bf_shf_FAB_PORT_ID
    bf_shf_FAB_PORT_FILTER
  by (rule drop_bit_and_field)+

text \<open>
  C10. When the attach succeeds, the arbiter's initial mode is read from \<open>FAB_CTRL\<close>:
  \<open>fab_port_id\<close> is \<open>0xff\<close> if the port filter field reads as disabled and the value of
  the port id field otherwise, and \<open>fab_users\<close> is zero. The first open after attach for
  that mode succeeds, sets \<open>fab_users\<close> to one and accesses no register.
\<close>

theorem fme_perf_init_fabric_mode:
  assumes "kzalloc_ok env" and "kcalloc_ok env" and "pmu_register_ret env = OK"
    and "readq feature_ioaddr FAB_CTRL = (v, io1)"
  shows "case fme_perf_init env feature_ioaddr fid of
           Inl e \<Rightarrow> False
         | Inr priv \<Rightarrow>
             fab_users priv = 0
           \<and> fab_port_id priv =
               (if FIELD_GET FAB_PORT_FILTER v = FAB_PORT_FILTER_DISABLE then FME_PORTID_ROOT
                else ucast (FIELD_GET FAB_PORT_ID v))
           \<and> ioaddr priv = io1
           \<and> fabric_event_init priv event (fab_port_id priv) dat
               = (OK, priv\<lparr>fab_users := 1\<rparr>)
           \<and> ioaddr (snd (fabric_event_init priv event (fab_port_id priv) dat)) = io1"
  using assms
  by (simp add: fme_perf_init_def fme_perf_pmu_register_def fme_perf_setup_attrs_def
      fme_perf_setup_hardware_def fabric_event_init_same)

theorem fme_perf_init_fabric_mode_witness:
  "kzalloc_ok attach_ok \<and> kcalloc_ok attach_ok \<and> pmu_register_ret attach_ok = OK
   \<and> readq port2_io FAB_CTRL = (0xA00000, port2_io\<lparr>trace := [Rd FAB_CTRL 0xA00000]\<rparr>)
   \<and> fme_perf_init attach_ok port2_io 1
       = Inr \<lparr>ioaddr = port2_io\<lparr>trace := [Rd FAB_CTRL 0xA00000]\<rparr>, feature_id = 1,
              fab_users = 0, fab_port_id = 2, dev_errs = []\<rparr>
   \<and> fabric_event_init
         \<lparr>ioaddr = port2_io\<lparr>trace := [Rd FAB_CTRL 0xA00000]\<rparr>, feature_id = 1,
          fab_users = 0, fab_port_id = 2, dev_errs = []\<rparr> 0 2 0
       = (OK, \<lparr>ioaddr = port2_io\<lparr>trace := [Rd FAB_CTRL 0xA00000]\<rparr>, feature_id = 1,
               fab_users = 1, fab_port_id = 2, dev_errs = []\<rparr>)"
proof -
  have e: "kzalloc_ok attach_ok" "kcalloc_ok attach_ok" "pmu_register_ret attach_ok = OK"
    by (simp_all add: attach_ok_def)
  have rd: "readq port2_io FAB_CTRL = (0xA00000, port2_io\<lparr>trace := [Rd FAB_CTRL 0xA00000]\<rparr>)"
    by (simp add: readq_def port2_io_def quiet_io_def)
  have f: "FIELD_GET FAB_PORT_FILTER (0xA00000 :: u64) = 1"
    "FIELD_GET FAB_PORT_ID (0xA00000 :: u64) = 2"
    by (simp_all add: FIELD_GET_FAB_CTRL drop_bit_eq_div take_bit_eq_mod)
  have init: "fme_perf_init attach_ok port2_io 1
       = Inr \<lparr>ioaddr = port2_io\<lparr>trace := [Rd FAB_CTRL 0xA00000]\<rparr>, feature_id = 1,
              fab_users = 0, fab_port_id = 2, dev_errs = []\<rparr>"
    using e rd f
    by (simp add: fme_perf_init_def fme_perf_pmu_register_def fme_perf_setup_attrs_def
      fme_perf_setup_hardware_def FAB_PORT_FILTER_DISABLE_def)
  show ?thesis
    using fme_perf_init_fabric_mode [OF e rd, where fid = 1 and event = 0 and dat = 0] e rd init
    by simp
qed

subsection \<open>The arbiter's invariant\<close>


lemma unat_users_zero: "unat (u :: u32) = 0 \<longleftrightarrow> u = 0"
  by (simp add: unat_eq_0)









end
